theory Spec2Isabelle
  imports Main
begin

section \<open>Kubernetes objects\<close>

text \<open>
  Go strings and byte slices are sequences of bytes; both are modelled as \<open>string\<close>
  (a list of 8-bit characters). A nil byte slice and an empty one both have length 0
  and are the empty list.
\<close>

type_synonym bytes = string

text \<open>
  \<open>metav1.ObjectMeta\<close>, restricted to the fields this development talks about.
  \<open>ResourceVersion\<close> is the store's opaque revision string; it is modelled as a natural
  number, \<open>0\<close> standing for the empty string of an object that was never written.
\<close>

record ObjectMeta =
  Name :: string
  Namespace :: string
  Labels :: "string \<rightharpoonup> string"
  Annotations :: "string \<rightharpoonup> string"
  ResourceVersion :: nat

record PlatformStatus =
  PlatformType :: string

record InfrastructureStatus =
  InfrastructureName :: string
  InfraPlatformStatus :: "PlatformStatus option"

record Infrastructure =
  InfraMeta :: ObjectMeta
  Status :: InfrastructureStatus

text \<open>
  \<open>runtime.Object\<close> is an interface; a value of it is a pointer with a dynamic type. The
  first four constructors are pointers to an object of that type, \<open>OtherObject\<close> being an
  object of a kind the filters do not name. \<open>NilPointer\<close> is a nil pointer of the given
  dynamic type behind a non-nil interface value, and \<open>NilObject\<close> is the nil interface value.
\<close>

datatype Kind =
    ClusterOperatorKind
  | InfrastructureKind
  | FeatureGateKind
  | OtherKind string

datatype RuntimeObject =
    ClusterOperatorObject ObjectMeta
  | InfrastructureObject Infrastructure
  | FeatureGateObject ObjectMeta
  | OtherObject string ObjectMeta
  | NilPointer Kind
  | NilObject

text \<open>A run-time panic; the only one the code below can raise is the nil dereference.\<close>

datatype panic = NilPointerDereference

text \<open>
  The names \<open>clusterOperatorName\<close>, \<open>infrastructureResourceName\<close>,
  \<open>externalFeatureGateName\<close>, \<open>InfrastructureResourceName\<close> and
  \<open>DefaultManagedNamespace\<close> are constants of package \<open>controllers\<close> whose declarations
  are not among the source files; they are parameters of the model.
\<close>

record Constants =
  clusterOperatorName :: string
  infrastructureResourceName :: string
  externalFeatureGateName :: string
  InfrastructureResourceName :: string
  DefaultManagedNamespace :: string

section \<open>Event filter (watch\_predicates.go)\<close>

datatype CreateEvent = CreateEvent RuntimeObject
datatype UpdateEvent = UpdateEvent RuntimeObject RuntimeObject
datatype DeleteEvent = DeleteEvent RuntimeObject
datatype GenericEvent = GenericEvent RuntimeObject

text \<open>
  \<open>predicate.Funcs\<close>: one boolean function per kind of notification. A call either
  returns its decision (\<open>Inr\<close>) or panics (\<open>Inl\<close>).
\<close>

record Funcs =
  CreateFunc :: "CreateEvent \<Rightarrow> panic + bool"
  UpdateFunc :: "UpdateEvent \<Rightarrow> panic + bool"
  GenericFunc :: "GenericEvent \<Rightarrow> panic + bool"
  DeleteFunc :: "DeleteEvent \<Rightarrow> panic + bool"

text \<open>
  The local closures: a checked type assertion \<open>obj.(*T)\<close> followed by \<open>ok &&\<close> a
  comparison of the name. The assertion fails (\<open>ok = false\<close>) on every other dynamic type
  and on the nil interface, and then the name is not read. It succeeds on a nil pointer of
  type \<open>*T\<close>, and then \<open>GetName\<close> dereferences the nil pointer.
\<close>

fun isClusterOperatorCluster :: "Constants \<Rightarrow> RuntimeObject \<Rightarrow> panic + bool" where
  "isClusterOperatorCluster c (ClusterOperatorObject co) =
     Inr (Name co = clusterOperatorName c)"
| "isClusterOperatorCluster c (NilPointer ClusterOperatorKind) = Inl NilPointerDereference"
| "isClusterOperatorCluster c _ = Inr False"

fun isInfrastructureCluster :: "Constants \<Rightarrow> RuntimeObject \<Rightarrow> panic + bool" where
  "isInfrastructureCluster c (InfrastructureObject infra) =
     Inr (Name (InfraMeta infra) = infrastructureResourceName c)"
| "isInfrastructureCluster c (NilPointer InfrastructureKind) = Inl NilPointerDereference"
| "isInfrastructureCluster c _ = Inr False"

fun isFeatureGateCluster :: "Constants \<Rightarrow> RuntimeObject \<Rightarrow> panic + bool" where
  "isFeatureGateCluster c (FeatureGateObject featureGate) =
     Inr (Name featureGate = externalFeatureGateName c)"
| "isFeatureGateCluster c (NilPointer FeatureGateKind) = Inl NilPointerDereference"
| "isFeatureGateCluster c _ = Inr False"

definition clusterOperatorPredicates :: "Constants \<Rightarrow> Funcs" where
  "clusterOperatorPredicates c =
     \<lparr> CreateFunc = (\<lambda>e. case e of CreateEvent obj \<Rightarrow> isClusterOperatorCluster c obj),
       UpdateFunc = (\<lambda>e. case e of UpdateEvent objOld objNew \<Rightarrow> isClusterOperatorCluster c objNew),
       GenericFunc = (\<lambda>e. case e of GenericEvent obj \<Rightarrow> isClusterOperatorCluster c obj),
       DeleteFunc = (\<lambda>e. case e of DeleteEvent obj \<Rightarrow> isClusterOperatorCluster c obj) \<rparr>"

definition infrastructurePredicates :: "Constants \<Rightarrow> Funcs" where
  "infrastructurePredicates c =
     \<lparr> CreateFunc = (\<lambda>e. case e of CreateEvent obj \<Rightarrow> isInfrastructureCluster c obj),
       UpdateFunc = (\<lambda>e. case e of UpdateEvent objOld objNew \<Rightarrow> isInfrastructureCluster c objNew),
       GenericFunc = (\<lambda>e. case e of GenericEvent obj \<Rightarrow> isInfrastructureCluster c obj),
       DeleteFunc = (\<lambda>e. case e of DeleteEvent obj \<Rightarrow> isInfrastructureCluster c obj) \<rparr>"

definition featureGatePredicates :: "Constants \<Rightarrow> Funcs" where
  "featureGatePredicates c =
     \<lparr> CreateFunc = (\<lambda>e. case e of CreateEvent obj \<Rightarrow> isFeatureGateCluster c obj),
       UpdateFunc = (\<lambda>e. case e of UpdateEvent objOld objNew \<Rightarrow> isFeatureGateCluster c objNew),
       GenericFunc = (\<lambda>e. case e of GenericEvent obj \<Rightarrow> isFeatureGateCluster c obj),
       DeleteFunc = (\<lambda>e. case e of DeleteEvent obj \<Rightarrow> isFeatureGateCluster c obj) \<rparr>"

text \<open>
  A change notification is one of the four events; the watch machinery hands it to the
  function of \<open>Funcs\<close> of the same kind.
\<close>

datatype Notification =
    OnCreate CreateEvent
  | OnUpdate UpdateEvent
  | OnDelete DeleteEvent
  | OnGeneric GenericEvent

fun admit :: "Funcs \<Rightarrow> Notification \<Rightarrow> panic + bool" where
  "admit p (OnCreate e) = CreateFunc p e"
| "admit p (OnUpdate e) = UpdateFunc p e"
| "admit p (OnDelete e) = DeleteFunc p e"
| "admit p (OnGeneric e) = GenericFunc p e"

text \<open>The object a notification is about; for an update, the new snapshot.\<close>

fun subject :: "Notification \<Rightarrow> RuntimeObject" where
  "subject (OnCreate (CreateEvent obj)) = obj"
| "subject (OnUpdate (UpdateEvent objOld objNew)) = objNew"
| "subject (OnDelete (DeleteEvent obj)) = obj"
| "subject (OnGeneric (GenericEvent obj)) = obj"

section \<open>Errors\<close>

datatype Field = FieldToken | FieldCaCert | FieldApiServerEndpoint | FieldClusterName

text \<open>
  Go errors as values. \<open>Errorf msg err\<close> is \<open>fmt.Errorf(msg + "%v", err)\<close>: a new
  error whose text quotes \<open>err\<close>; \<open>ErrorString\<close> is an error made from a text alone.
  \<open>NotFound\<close>, \<open>AlreadyExists\<close>, \<open>Conflict\<close> and \<open>ServerError\<close> are the answers of the
  store; \<open>EmptyInput\<close> is the failure of the derivation function.
\<close>

datatype error =
    NotFound string string
  | AlreadyExists string string
  | Conflict string string
  | ServerError string
  | EmptyInput Field
  | ErrorString string
  | Errorf string error

fun IsNotFound :: "error \<Rightarrow> bool" where
  "IsNotFound (NotFound kind name) = True"
| "IsNotFound _ = False"

section \<open>Derivation function\<close>

record Cluster =
  Server :: string
  CertificateAuthorityData :: bytes

record Context =
  ContextCluster :: string
  ContextAuthInfo :: string
  ContextNamespace :: string

record AuthInfo =
  Token :: string

text \<open>\<open>api.Config\<close>: the derived configuration document, three maps of named entries.\<close>

record Config =
  Clusters :: "string \<rightharpoonup> Cluster"
  Contexts :: "string \<rightharpoonup> Context"
  AuthInfos :: "string \<rightharpoonup> AuthInfo"

record kubeconfigOptions =
  token :: bytes
  caCert :: bytes
  apiServerEnpoint :: string
  clusterName :: string

text \<open>
  Standard base64 with padding, as \<open>base64.StdEncoding.DecodeString\<close> reads it: carriage
  returns and line feeds are skipped, the remaining text is read four characters at a
  time, and only the last group may end in one or two \<open>=\<close>. \<open>None\<close> is the decoder's
  \<open>CorruptInputError\<close>.
\<close>

definition decodeMap :: "char \<Rightarrow> nat option" where
  "decodeMap ch =
     (let n = (of_char ch :: nat) in
      if 65 \<le> n \<and> n \<le> 90 then Some (n - 65)
      else if 97 \<le> n \<and> n \<le> 122 then Some (n - 71)
      else if 48 \<le> n \<and> n \<le> 57 then Some (n + 4)
      else if n = 43 then Some 62
      else if n = 47 then Some 63
      else None)"

fun decodeQuanta :: "string \<Rightarrow> bytes option" where
  "decodeQuanta [] = Some []"
| "decodeQuanta (a # b # c # d # rest) =
     (case (decodeMap a, decodeMap b) of
        (Some x, Some y) \<Rightarrow>
          if c = CHR ''='' then
            (if d = CHR ''='' \<and> rest = [] then Some [char_of (x * 4 + y div 16)] else None)
          else
            (case decodeMap c of
               None \<Rightarrow> None
             | Some z \<Rightarrow>
                 if d = CHR ''='' then
                   (if rest = []
                    then Some [char_of (x * 4 + y div 16), char_of ((y mod 16) * 16 + z div 4)]
                    else None)
                 else
                   (case decodeMap d of
                      None \<Rightarrow> None
                    | Some u \<Rightarrow>
                        (case decodeQuanta rest of
                           None \<Rightarrow> None
                         | Some bs \<Rightarrow>
                             Some (char_of (x * 4 + y div 16)
                                 # char_of ((y mod 16) * 16 + z div 4)
                                 # char_of ((z mod 4) * 64 + u) # bs))))
      | _ \<Rightarrow> None)"
| "decodeQuanta _ = None"

definition DecodeString :: "string \<Rightarrow> bytes option" where
  "DecodeString s =
     decodeQuanta (filter (\<lambda>ch. ch \<noteq> CHR 0x0A \<and> ch \<noteq> CHR 0x0D) s)"

text \<open>
  Modelled from the spec: how \<open>generateKubeconfig\<close>, which is not among the sources, turns
  the token input into the token of the auth entry. The spec's success scenario and the
  test give the input \<open>dGVzdA==\<close> and expect the token \<open>test\<close>, its base64 decoding; the
  spec also says that the call succeeds on every non-empty input and that no field of the
  document is empty. So a token input that is well-formed base64 with a non-empty decoding
  is decoded, and every other token input is taken as it is.
\<close>

definition bearerToken :: "bytes \<Rightarrow> string" where
  "bearerToken tok =
     (case DecodeString tok of
        None \<Rightarrow> tok
      | Some decoded \<Rightarrow> if decoded = [] then tok else decoded)"

text \<open>
  Modelled from the spec: \<open>generateKubeconfig\<close> (and the type \<open>kubeconfigOptions\<close>) are
  used by \<open>kubeconfig.go\<close> and exercised by \<open>generate_test.go\<close>, but the file that
  defines them is not among the sources. The model follows the spec's derivation
  function: each of the four inputs is checked for emptiness and the failure names the
  field; every other call succeeds, and the document has one cluster entry (endpoint and
  CA bytes) and one context (cluster, auth entry, managed namespace), both named by the
  cluster name, and one auth entry \<open>cluster-capi-operator\<close> carrying the bearer token.
\<close>

definition generateKubeconfig :: "Constants \<Rightarrow> kubeconfigOptions \<Rightarrow> error + Config" where
  "generateKubeconfig c options =
     (if token options = [] then Inl (EmptyInput FieldToken)
      else if caCert options = [] then Inl (EmptyInput FieldCaCert)
      else if apiServerEnpoint options = [] then Inl (EmptyInput FieldApiServerEndpoint)
      else if clusterName options = [] then Inl (EmptyInput FieldClusterName)
      else
        Inr \<lparr> Clusters =
                [clusterName options \<mapsto>
                   \<lparr> Server = apiServerEnpoint options,
                     CertificateAuthorityData = caCert options \<rparr>],
              Contexts =
                [clusterName options \<mapsto>
                   \<lparr> ContextCluster = clusterName options,
                     ContextAuthInfo = ''cluster-capi-operator'',
                     ContextNamespace = DefaultManagedNamespace c \<rparr>],
              AuthInfos =
                [''cluster-capi-operator'' \<mapsto> \<lparr> Token = bearerToken (token options) \<rparr>] \<rparr>)"

text \<open>The input field an \<open>EmptyInput\<close> failure names is empty in the options.\<close>

fun fieldEmpty :: "kubeconfigOptions \<Rightarrow> Field \<Rightarrow> bool" where
  "fieldEmpty options FieldToken = (token options = [])"
| "fieldEmpty options FieldCaCert = (caCert options = [])"
| "fieldEmpty options FieldApiServerEndpoint = (apiServerEnpoint options = [])"
| "fieldEmpty options FieldClusterName = (clusterName options = [])"

section \<open>The store\<close>

record Secret =
  SecretMeta :: ObjectMeta
  Data :: "string \<rightharpoonup> bytes"
  Type :: string

record ObjectReference =
  RefName :: string

record ServiceAccount =
  Secrets :: "ObjectReference list"

text \<open>\<open>client.ObjectKey\<close>: namespace and name.\<close>

type_synonym ObjectKey = "string \<times> string"

definition ObjectKeyFromObject :: "Secret \<Rightarrow> ObjectKey" where
  "ObjectKeyFromObject obj = (Namespace (SecretMeta obj), Name (SecretMeta obj))"

datatype Request =
    GetInfrastructure string
  | GetServiceAccount ObjectKey
  | GetSecret ObjectKey
  | CreateSecret ObjectKey
  | PatchSecret ObjectKey
  | UpdateStatus

text \<open>What a reconcile loop reports to the aggregate status record.\<close>

datatype Outcome = Available | Degraded error

text \<open>
  The resource store is an external collaborator, reached only through typed get, create
  and patch. Its state: the records by key, the revision it assigned last, the aggregate
  status record, and two traits of the store that neither the code nor the spec fixes.
  \<open>faults\<close> says for each request whether the store answers it with a failure of its own
  (connectivity, server error, exhausted conflict retries) instead of serving it.
  \<open>stampsVacuousWrites\<close> says what the store does with a patch that leaves the record as
  it is: a store that stamps writes the record again under a new revision, a store that
  does not leaves it alone.
\<close>

record World =
  infrastructures :: "string \<rightharpoonup> Infrastructure"
  serviceAccounts :: "ObjectKey \<rightharpoonup> ServiceAccount"
  secrets :: "ObjectKey \<rightharpoonup> Secret"
  revision :: nat
  clusterOperatorStatus :: "Outcome option"
  faults :: "Request \<Rightarrow> error option"
  stampsVacuousWrites :: bool

definition getInfrastructure :: "World \<Rightarrow> string \<Rightarrow> error + Infrastructure" where
  "getInfrastructure w name =
     (case faults w (GetInfrastructure name) of
        Some err \<Rightarrow> Inl err
      | None \<Rightarrow>
          (case infrastructures w name of
             None \<Rightarrow> Inl (NotFound ''infrastructures'' name)
           | Some infra \<Rightarrow> Inr infra))"

definition getServiceAccount :: "World \<Rightarrow> ObjectKey \<Rightarrow> error + ServiceAccount" where
  "getServiceAccount w key =
     (case faults w (GetServiceAccount key) of
        Some err \<Rightarrow> Inl err
      | None \<Rightarrow>
          (case serviceAccounts w key of
             None \<Rightarrow> Inl (NotFound ''serviceaccounts'' (snd key))
           | Some sa \<Rightarrow> Inr sa))"

definition getSecret :: "World \<Rightarrow> ObjectKey \<Rightarrow> error + Secret" where
  "getSecret w key =
     (case faults w (GetSecret key) of
        Some err \<Rightarrow> Inl err
      | None \<Rightarrow>
          (case secrets w key of
             None \<Rightarrow> Inl (NotFound ''secrets'' (snd key))
           | Some s \<Rightarrow> Inr s))"

text \<open>
  A write that changes a record gives it the next revision; the revision of every other
  record stays.
\<close>

definition store :: "World \<Rightarrow> ObjectKey \<Rightarrow> Secret \<Rightarrow> World" where
  "store w key obj =
     w\<lparr> secrets := (secrets w)
            (key \<mapsto> obj\<lparr> SecretMeta := (SecretMeta obj)\<lparr> ResourceVersion := Suc (revision w) \<rparr> \<rparr>),
        revision := Suc (revision w) \<rparr>"

definition createSecret :: "World \<Rightarrow> Secret \<Rightarrow> error + World" where
  "createSecret w obj =
     (let key = ObjectKeyFromObject obj in
      case faults w (CreateSecret key) of
        Some err \<Rightarrow> Inl err
      | None \<Rightarrow>
          (case secrets w key of
             Some existing \<Rightarrow> Inl (AlreadyExists ''secrets'' (snd key))
           | None \<Rightarrow> Inr (store w key obj)))"

text \<open>
  A JSON merge patch between two snapshots of a secret (\<open>client.MergeFrom\<close>): for each
  map, the keys whose value differs, with their new value or \<open>None\<close> when the key is gone;
  for each scalar, the new value when it differs.
\<close>

record SecretPatch =
  patchLabels :: "string \<rightharpoonup> string option"
  patchAnnotations :: "string \<rightharpoonup> string option"
  patchResourceVersion :: "nat option"
  patchData :: "string \<rightharpoonup> bytes option"
  patchType :: "string option"

definition diffMap :: "('k \<rightharpoonup> 'v) \<Rightarrow> ('k \<rightharpoonup> 'v) \<Rightarrow> ('k \<rightharpoonup> 'v option)" where
  "diffMap original modified = (\<lambda>k. if original k = modified k then None else Some (modified k))"

definition applyMap :: "('k \<rightharpoonup> 'v option) \<Rightarrow> ('k \<rightharpoonup> 'v) \<Rightarrow> ('k \<rightharpoonup> 'v)" where
  "applyMap p m = (\<lambda>k. case p k of None \<Rightarrow> m k | Some v \<Rightarrow> v)"

definition diffScalar :: "'a \<Rightarrow> 'a \<Rightarrow> 'a option" where
  "diffScalar original modified = (if original = modified then None else Some modified)"

definition MergeFrom :: "Secret \<Rightarrow> Secret \<Rightarrow> SecretPatch" where
  "MergeFrom original modified =
     \<lparr> patchLabels = diffMap (Labels (SecretMeta original)) (Labels (SecretMeta modified)),
       patchAnnotations =
         diffMap (Annotations (SecretMeta original)) (Annotations (SecretMeta modified)),
       patchResourceVersion =
         diffScalar (ResourceVersion (SecretMeta original)) (ResourceVersion (SecretMeta modified)),
       patchData = diffMap (Data original) (Data modified),
       patchType = diffScalar (Type original) (Type modified) \<rparr>"

definition applyPatch :: "SecretPatch \<Rightarrow> Secret \<Rightarrow> Secret" where
  "applyPatch p cur =
     cur\<lparr> SecretMeta := (SecretMeta cur)
             \<lparr> Labels := applyMap (patchLabels p) (Labels (SecretMeta cur)),
               Annotations := applyMap (patchAnnotations p) (Annotations (SecretMeta cur)) \<rparr>,
          Data := applyMap (patchData p) (Data cur),
          Type := (case patchType p of None \<Rightarrow> Type cur | Some t \<Rightarrow> t) \<rparr>"

text \<open>
  The store's patch. The revision is the store's own field: a patch that names a
  non-empty revision is a precondition on the stored one, a patch that clears it is
  unconditional. A patched record that differs from the stored one is written and gets a
  new revision; one that does not differ is written again only by a store that stamps
  vacuous writes.
\<close>

definition patchSecret :: "World \<Rightarrow> ObjectKey \<Rightarrow> SecretPatch \<Rightarrow> error + World" where
  "patchSecret w key p =
     (case faults w (PatchSecret key) of
        Some err \<Rightarrow> Inl err
      | None \<Rightarrow>
          (case secrets w key of
             None \<Rightarrow> Inl (NotFound ''secrets'' (snd key))
           | Some cur \<Rightarrow>
               if (case patchResourceVersion p of
                     None \<Rightarrow> False
                   | Some rv \<Rightarrow> rv \<noteq> 0 \<and> rv \<noteq> ResourceVersion (SecretMeta cur))
               then Inl (Conflict ''secrets'' (snd key))
               else if applyPatch p cur = cur \<and> \<not> stampsVacuousWrites w then Inr w
               else Inr (store w key (applyPatch p cur))))"

text \<open>
  Modelled from the spec: the aggregate status writer behind \<open>SetStatusAvailable\<close> and
  \<open>SetStatusDegraded\<close>, which belong to \<open>operatorstatus.ClusterOperatorStatusClient\<close> and
  are not among the sources. A call applies the outcome (Available, or Degraded with its
  cause) to the shared status record; or, when its bounded retries are exhausted or the
  store fails, it surfaces a terminal error and leaves the record as it was.
\<close>

definition writeStatus :: "Outcome \<Rightarrow> World \<Rightarrow> error option \<times> World" where
  "writeStatus outcome w =
     (case faults w UpdateStatus of
        Some err \<Rightarrow> (Some err, w)
      | None \<Rightarrow> (None, w\<lparr> clusterOperatorStatus := Some outcome \<rparr>))"

text \<open>
  Modelled from the spec: \<open>SetStatusAvailable\<close>, declared outside the sources, reports the
  outcome Available through the status writer.
\<close>

definition SetStatusAvailable :: "World \<Rightarrow> error option \<times> World" where
  "SetStatusAvailable w = writeStatus Available w"

text \<open>
  Modelled from the spec: \<open>SetStatusDegraded\<close>, declared outside the sources, reports the
  outcome Degraded with the cause it is given through the status writer.
\<close>

definition SetStatusDegraded :: "error \<Rightarrow> World \<Rightarrow> error option \<times> World" where
  "SetStatusDegraded reconcileErr w = writeStatus (Degraded reconcileErr) w"

section \<open>Idempotent upsert (controllerutil.CreateOrPatch)\<close>

datatype OperationResult =
    OperationResultNone
  | OperationResultCreated
  | OperationResultUpdated

text \<open>
  The mutate function is a closure over the object; the model passes the object in and
  gets the mutated object back.
\<close>

type_synonym MutateFn = "Secret \<Rightarrow> error + Secret"

definition mutate :: "MutateFn \<Rightarrow> ObjectKey \<Rightarrow> Secret \<Rightarrow> error + Secret" where
  "mutate f key obj =
     (case f obj of
        Inl err \<Rightarrow> Inl err
      | Inr obj' \<Rightarrow>
          if ObjectKeyFromObject obj' \<noteq> key
          then Inl (ErrorString ''MutateFn cannot mutate object name and/or object namespace'')
          else Inr obj')"

text \<open>
  \<open>CreateOrPatch\<close> reads the record under the object's key into the object. When there is
  none, it mutates the object and creates it. Otherwise it keeps a copy of what it read,
  mutates, and sends the merge patch between the copy and the mutated object unless the
  two are equal. (A secret has no status subresource, so the status patch is empty.)
\<close>

definition CreateOrPatch :: "World \<Rightarrow> Secret \<Rightarrow> MutateFn \<Rightarrow> (error + OperationResult) \<times> World" where
  "CreateOrPatch w obj f =
     (let key = ObjectKeyFromObject obj in
      case getSecret w key of
        Inl err \<Rightarrow>
          if \<not> IsNotFound err then (Inl err, w)
          else
            (case mutate f key obj of
               Inl err \<Rightarrow> (Inl err, w)
             | Inr obj' \<Rightarrow>
                 (case createSecret w obj' of
                    Inl err \<Rightarrow> (Inl err, w)
                  | Inr w' \<Rightarrow> (Inr OperationResultCreated, w')))
      | Inr before \<Rightarrow>
          (case mutate f key before of
             Inl err \<Rightarrow> (Inl err, w)
           | Inr after \<Rightarrow>
               if before \<noteq> after then
                 (case patchSecret w key (MergeFrom before after) of
                    Inl err \<Rightarrow> (Inl err, w)
                  | Inr w' \<Rightarrow> (Inr OperationResultUpdated, w'))
               else (Inr OperationResultNone, w)))"

section \<open>Kubeconfig reconciler (kubeconfig.go)\<close>

definition serviceAccountName :: string where
  "serviceAccountName = ''cluster-capi-operator''"

text \<open>
  Constants of the Cluster API library (\<open>clusterv1.ClusterLabelName\<close>,
  \<open>clusterv1.ClusterSecretType\<close>).
\<close>

definition ClusterLabelName :: string where
  "ClusterLabelName = ''cluster.x-k8s.io/cluster-name''"

definition ClusterSecretType :: string where
  "ClusterSecretType = ''cluster.x-k8s.io/secret''"

text \<open>
  \<open>RestCfgHost\<close> is \<open>RestCfg.Host\<close>. \<open>reconcilerClusterName\<close> is the private field
  \<open>clusterName\<close>, which \<open>Reconcile\<close> assigns.
\<close>

record KubeconfigReconciler =
  SupportedPlatforms :: "string \<rightharpoonup> bool"
  RestCfgHost :: string
  reconcilerClusterName :: string

text \<open>
  Runes are Unicode code points. \<open>utf8.DecodeRuneInString\<close> reads the first rune of a
  string and its width in bytes: a byte below \<open>0x80\<close> is itself; a leading byte of a
  two-, three- or four-byte sequence is followed by continuation bytes, the first of them
  in the range the leading byte accepts; everything else, also a sequence that is cut
  short, is \<open>RuneError\<close> of width 1.
\<close>

type_synonym rune = nat

definition RuneError :: rune where
  "RuneError = 0xFFFD"

text \<open>For a leading byte: the length of its sequence and the range of the second byte.\<close>

definition acceptRange :: "nat \<Rightarrow> (nat \<times> nat \<times> nat) option" where
  "acceptRange s0 =
     (if 0xC2 \<le> s0 \<and> s0 \<le> 0xDF then Some (2, 0x80, 0xBF)
      else if s0 = 0xE0 then Some (3, 0xA0, 0xBF)
      else if 0xE1 \<le> s0 \<and> s0 \<le> 0xEC then Some (3, 0x80, 0xBF)
      else if s0 = 0xED then Some (3, 0x80, 0x9F)
      else if 0xEE \<le> s0 \<and> s0 \<le> 0xEF then Some (3, 0x80, 0xBF)
      else if s0 = 0xF0 then Some (4, 0x90, 0xBF)
      else if 0xF1 \<le> s0 \<and> s0 \<le> 0xF3 then Some (4, 0x80, 0xBF)
      else if s0 = 0xF4 then Some (4, 0x80, 0x8F)
      else None)"

definition DecodeRuneInString :: "string \<Rightarrow> rune \<times> nat" where
  "DecodeRuneInString s =
     (if s = [] then (RuneError, 0)
      else
        (let s0 = (of_char (s ! 0) :: nat) in
         if s0 < 0x80 then (s0, 1)
         else
           (case acceptRange s0 of
              None \<Rightarrow> (RuneError, 1)
            | Some (sz, lo, hi) \<Rightarrow>
                if length s < sz then (RuneError, 1)
                else
                  (let s1 = (of_char (s ! 1) :: nat) in
                   if s1 < lo \<or> hi < s1 then (RuneError, 1)
                   else if sz \<le> 2 then ((s0 mod 32) * 64 + s1 mod 64, 2)
                   else
                     (let s2 = (of_char (s ! 2) :: nat) in
                      if s2 < 0x80 \<or> 0xBF < s2 then (RuneError, 1)
                      else if sz \<le> 3
                      then ((s0 mod 16) * 4096 + (s1 mod 64) * 64 + s2 mod 64, 3)
                      else
                        (let s3 = (of_char (s ! 3) :: nat) in
                         if s3 < 0x80 \<or> 0xBF < s3 then (RuneError, 1)
                         else ((s0 mod 8) * 262144 + (s1 mod 64) * 4096
                                 + (s2 mod 64) * 64 + s3 mod 64, 4)))))))"

text \<open>The runes of a string, as a \<open>range\<close> loop over the string yields them.\<close>

fun runes :: "string \<Rightarrow> rune list" where
  "runes [] = []"
| "runes (c # cs) =
     fst (DecodeRuneInString (c # cs)) # runes (drop (snd (DecodeRuneInString (c # cs)) - 1) cs)"

text \<open>
  The UTF-8 encoding of a rune, as \<open>Builder.WriteRune\<close> writes it: a surrogate or a rune
  beyond \<open>0x10FFFF\<close> is written as \<open>RuneError\<close>.
\<close>

definition encode3 :: "rune \<Rightarrow> string" where
  "encode3 r = [char_of (0xE0 + r div 4096), char_of (0x80 + (r div 64) mod 64),
                char_of (0x80 + r mod 64)]"

definition EncodeRune :: "rune \<Rightarrow> string" where
  "EncodeRune r =
     (if r \<le> 0x7F then [char_of r]
      else if r \<le> 0x7FF then [char_of (0xC0 + r div 64), char_of (0x80 + r mod 64)]
      else if 0x10FFFF < r \<or> (0xD800 \<le> r \<and> r \<le> 0xDFFF) then encode3 RuneError
      else if r \<le> 0xFFFF then encode3 r
      else [char_of (0xF0 + r div 262144), char_of (0x80 + (r div 4096) mod 64),
            char_of (0x80 + (r div 64) mod 64), char_of (0x80 + r mod 64)])"

text \<open>
  \<open>strings.Map\<close>: the string whose runes are the images of the runes of \<open>s\<close>. (The library
  copies the bytes of the runes that the mapping leaves alone; their encoding is those
  bytes. No mapping used here drops a rune.)
\<close>

definition Map_string :: "(rune \<Rightarrow> rune) \<Rightarrow> string \<Rightarrow> string" where
  "Map_string mapping s = concat (map (\<lambda>c. EncodeRune (mapping c)) (runes s))"

text \<open>
  \<open>unicode.ToLower\<close>: ASCII is handled in place; every other rune is looked up in the
  case table of the Unicode library, \<open>unicode.To(unicode.LowerCase, r)\<close>. The table is a
  parameter, \<open>lowerCase\<close>.
\<close>

definition unicodeToLower :: "(rune \<Rightarrow> rune) \<Rightarrow> rune \<Rightarrow> rune" where
  "unicodeToLower lowerCase r =
     (if r \<le> 0x7F then (if 65 \<le> r \<and> r \<le> 90 then r + 32 else r)
      else lowerCase r)"

text \<open>
  \<open>strings.ToLower\<close>: a string of ASCII bytes is returned as it is when it has no
  upper-case letter and lower-cased byte by byte otherwise; any other string is mapped
  rune by rune.
\<close>

definition ToLower :: "(rune \<Rightarrow> rune) \<Rightarrow> string \<Rightarrow> string" where
  "ToLower lowerCase s =
     (let isASCII = list_all (\<lambda>c. (of_char c :: nat) < 0x80) s;
          hasUpper = list_ex (\<lambda>c. 65 \<le> (of_char c :: nat) \<and> (of_char c :: nat) \<le> 90) s
      in if isASCII then
           (if \<not> hasUpper then s
            else map (\<lambda>c. if 65 \<le> (of_char c :: nat) \<and> (of_char c :: nat) \<le> 90
                           then char_of ((of_char c :: nat) + 32) else c) s)
         else Map_string (unicodeToLower lowerCase) s)"

definition HasPrefix :: "string \<Rightarrow> string \<Rightarrow> bool" where
  "HasPrefix s pre = (length pre \<le> length s \<and> take (length pre) s = pre)"

text \<open>
  The loop over \<open>serviceAccount.Secrets\<close>: every reference whose name has the prefix
  overwrites \<open>tokenSecretRef\<close>, so the last such reference is the one kept.
\<close>

definition tokenSecretRefLoop :: "string \<Rightarrow> ObjectReference list \<Rightarrow> ObjectReference option" where
  "tokenSecretRefLoop pre refs =
     foldl (\<lambda>tokenSecretRef secretRef.
              if HasPrefix (RefName secretRef) pre then Some secretRef else tokenSecretRef)
       None refs"

text \<open>Reading a key of a Go map of byte slices: nil, of length 0, when the key is absent.\<close>

definition index :: "(string \<rightharpoonup> bytes) \<Rightarrow> string \<Rightarrow> bytes" where
  "index m k = (case m k of None \<Rightarrow> [] | Some v \<Rightarrow> v)"

text \<open>The desired secondary secret record built by \<open>reconcileKubeconfig\<close>.\<close>

definition kubeconfigSecret :: "Constants \<Rightarrow> string \<Rightarrow> bytes \<Rightarrow> Secret" where
  "kubeconfigSecret c name out =
     \<lparr> SecretMeta =
         \<lparr> Name = name @ ''-kubeconfig'',
           Namespace = DefaultManagedNamespace c,
           Labels = [ClusterLabelName \<mapsto> name],
           Annotations = Map.empty,
           ResourceVersion = 0 \<rparr>,
       Data = [''value'' \<mapsto> out],
       Type = ClusterSecretType \<rparr>"

text \<open>The closure handed to \<open>CreateOrPatch\<close>: three assignments from the copy.\<close>

definition mutateFn :: "Secret \<Rightarrow> MutateFn" where
  "mutateFn kubeconfigSecretCopy obj =
     Inr (obj\<lparr> SecretMeta := SecretMeta kubeconfigSecretCopy,
              Data := Data kubeconfigSecretCopy,
              Type := Type kubeconfigSecretCopy \<rparr>)"

text \<open>
  \<open>Write\<close> is \<open>clientcmd.Write\<close>, the external serializer of the document: a parameter.
\<close>

definition reconcileKubeconfig ::
  "Constants \<Rightarrow> (Config \<Rightarrow> error + bytes) \<Rightarrow> KubeconfigReconciler \<Rightarrow> World
     \<Rightarrow> error option \<times> World" where
  "reconcileKubeconfig c Write r w =
     (case getServiceAccount w (DefaultManagedNamespace c, serviceAccountName) of
        Inl err \<Rightarrow>
          (Some (Errorf (''error retrieving ServiceAccount '' @ serviceAccountName @ '': '') err), w)
      | Inr serviceAccount \<Rightarrow>
          (case tokenSecretRefLoop (serviceAccountName @ ''-token'') (Secrets serviceAccount) of
             None \<Rightarrow>
               (Some (ErrorString
                  (''unable to find token secret for service account '' @ serviceAccountName)), w)
           | Some tokenSecretRef \<Rightarrow>
               (case getSecret w (DefaultManagedNamespace c, RefName tokenSecretRef) of
                  Inl err \<Rightarrow> (Some (Errorf ''unable to retrieve Secret object: '' err), w)
                | Inr tokenSecret \<Rightarrow>
                    (case generateKubeconfig c
                            \<lparr> token = index (Data tokenSecret) ''token'',
                              caCert = index (Data tokenSecret) ''ca.crt'',
                              apiServerEnpoint = RestCfgHost r,
                              clusterName = reconcilerClusterName r \<rparr> of
                       Inl err \<Rightarrow> (Some (Errorf ''error generating kubeconfig: '' err), w)
                     | Inr kubeconfig \<Rightarrow>
                         (case Write kubeconfig of
                            Inl err \<Rightarrow> (Some (Errorf ''error writing kubeconfig: '' err), w)
                          | Inr out \<Rightarrow>
                              (let desired = kubeconfigSecret c (reconcilerClusterName r) out in
                               case CreateOrPatch w desired (mutateFn desired) of
                                 (Inl err, w') \<Rightarrow>
                                   (Some (Errorf ''error reconciling kubeconfig secret: '' err), w')
                               | (Inr res, w') \<Rightarrow> (None, w')))))))"

text \<open>
  \<open>Reconcile\<close> returns the error handed to the scheduler (\<open>None\<close> for success), the
  reconciler, whose cluster name it may have assigned, and the store. \<open>lowerCase\<close> is the
  case table that \<open>strings.ToLower\<close> consults.
\<close>

definition Reconcile ::
  "Constants \<Rightarrow> (Config \<Rightarrow> error + bytes) \<Rightarrow> (rune \<Rightarrow> rune) \<Rightarrow> KubeconfigReconciler \<Rightarrow> World
     \<Rightarrow> error option \<times> KubeconfigReconciler \<times> World" where
  "Reconcile c Write lowerCase r w =
     (case getInfrastructure w (InfrastructureResourceName c) of
        Inl err \<Rightarrow>
          (case SetStatusDegraded err w of
             (Some err', w') \<Rightarrow> (Some (Errorf ''error syncing ClusterOperatorStatus: '' err'), r, w')
           | (None, w') \<Rightarrow> (Some err, r, w'))
      | Inr infra \<Rightarrow>
          (case InfraPlatformStatus (Status infra) of
             None \<Rightarrow>
               (case SetStatusAvailable w of
                  (Some err, w') \<Rightarrow> (Some err, r, w')
                | (None, w') \<Rightarrow> (None, r, w'))
           | Some platformStatus \<Rightarrow>
               (let r' = r\<lparr> reconcilerClusterName := InfrastructureName (Status infra) \<rparr> in
                if SupportedPlatforms r' (ToLower lowerCase (PlatformType platformStatus)) = None
                then
                  (case SetStatusAvailable w of
                     (Some err, w') \<Rightarrow> (Some err, r', w')
                   | (None, w') \<Rightarrow> (None, r', w'))
                else
                  (case reconcileKubeconfig c Write r' w of
                     (Some err, w1) \<Rightarrow>
                       (case SetStatusDegraded err w1 of
                          (Some err', w2) \<Rightarrow>
                            (Some (Errorf ''error syncing ClusterOperatorStatus: '' err'), r', w2)
                        | (None, w2) \<Rightarrow> (Some err, r', w2))
                   | (None, w1) \<Rightarrow>
                       (case SetStatusAvailable w1 of (err, w2) \<Rightarrow> (err, r', w2))))))"

text \<open>
  The fields of a stored secret that the upsert sets: the labels and annotations of the
  metadata, the payload data and the type.
\<close>

definition ownedFields ::
  "Secret \<Rightarrow> (string \<rightharpoonup> string) \<times> (string \<rightharpoonup> string) \<times> (string \<rightharpoonup> bytes) \<times> string" where
  "ownedFields s = (Labels (SecretMeta s), Annotations (SecretMeta s), Data s, Type s)"

text \<open>
  A stored secret and a store without the revisions the store has assigned: the contents
  that are left when the revision of every secret and the store's revision counter are
  cleared.
\<close>

definition withoutRevision :: "Secret \<Rightarrow> Secret" where
  "withoutRevision s = s\<lparr> SecretMeta := (SecretMeta s)\<lparr> ResourceVersion := 0 \<rparr> \<rparr>"

definition contents :: "World \<Rightarrow> World" where
  "contents w =
     w\<lparr> secrets := (\<lambda>key. map_option withoutRevision (secrets w key)), revision := 0 \<rparr>"

text \<open>
  Two runes are the same letter up to case when they have the same lower-case form; a
  letter and its lower-case form are, whenever the lower-case form is its own lower-case
  form. Two strings differ only in letter case when they have as many runes and, rune by
  rune, hold the same letter up to case.
\<close>

definition sameLetter :: "(rune \<Rightarrow> rune) \<Rightarrow> rune \<Rightarrow> rune \<Rightarrow> bool" where
  "sameLetter lowerCase a b = (unicodeToLower lowerCase a = unicodeToLower lowerCase b)"


section \<open>Example inputs\<close>

text \<open>
  Concrete inputs on which the theorems below are exercised: the derivation function's
  test input, a serializer, a reconciler that supports the platform \<open>aws\<close>, and a store
  holding the infrastructure record, the service account and its token secret.
\<close>

definition exampleConstants :: Constants where
  "exampleConstants =
     \<lparr> clusterOperatorName = ''cluster-api'',
       infrastructureResourceName = ''cluster'',
       externalFeatureGateName = ''cluster'',
       InfrastructureResourceName = ''cluster'',
       DefaultManagedNamespace = ''openshift-cluster-api'' \<rparr>"

definition exampleOptions :: kubeconfigOptions where
  "exampleOptions =
     \<lparr> token = ''dGVzdA=='', caCert = ''dGVzdA=='',
       apiServerEnpoint = ''https://example.com'', clusterName = ''test'' \<rparr>"

definition exampleWrite :: "Config \<Rightarrow> error + bytes" where
  "exampleWrite kubeconfig =
     Inr (case AuthInfos kubeconfig ''cluster-capi-operator'' of
            None \<Rightarrow> ''no-user''
          | Some user \<Rightarrow> ''token: '' @ Token user)"

definition exampleReconciler :: KubeconfigReconciler where
  "exampleReconciler =
     \<lparr> SupportedPlatforms = [''aws'' \<mapsto> True],
       RestCfgHost = ''https://example.com'',
       reconcilerClusterName = [] \<rparr>"

definition exampleInfrastructure :: "PlatformStatus option \<Rightarrow> Infrastructure" where
  "exampleInfrastructure platformStatus =
     \<lparr> InfraMeta = \<lparr> Name = ''cluster'', Namespace = [], Labels = Map.empty,
                     Annotations = Map.empty, ResourceVersion = 1 \<rparr>,
       Status = \<lparr> InfrastructureName = ''test'', InfraPlatformStatus = platformStatus \<rparr> \<rparr>"

definition exampleTokenSecret :: Secret where
  "exampleTokenSecret =
     \<lparr> SecretMeta = \<lparr> Name = ''cluster-capi-operator-token-x2x'',
                      Namespace = ''openshift-cluster-api'', Labels = Map.empty,
                      Annotations = Map.empty, ResourceVersion = 2 \<rparr>,
       Data = [''token'' \<mapsto> ''dGVzdA=='', ''ca.crt'' \<mapsto> ''dGVzdA==''],
       Type = ''kubernetes.io/service-account-token'' \<rparr>"

definition exampleWorld :: "PlatformStatus option \<Rightarrow> World" where
  "exampleWorld platformStatus =
     \<lparr> infrastructures = [''cluster'' \<mapsto> exampleInfrastructure platformStatus],
       serviceAccounts =
         [(''openshift-cluster-api'', ''cluster-capi-operator'') \<mapsto>
            \<lparr> Secrets = [\<lparr> RefName = ''cluster-capi-operator-dockercfg-q7q'' \<rparr>,
                         \<lparr> RefName = ''cluster-capi-operator-token-x2x'' \<rparr>] \<rparr>],
       secrets =
         [(''openshift-cluster-api'', ''cluster-capi-operator-token-x2x'') \<mapsto> exampleTokenSecret],
       revision = 2,
       clusterOperatorStatus = None,
       faults = (\<lambda>request. None),
       stampsVacuousWrites = False \<rparr>"

text \<open>
  A case table that knows the letters of Latin-1 and the Kelvin sign, and the platform
  types \<open>AWS\<close> and \<open>aws\<close> with a grave accent on the first letter, in UTF-8.
\<close>

definition exampleLowerCase :: "rune \<Rightarrow> rune" where
  "exampleLowerCase r =
     (if 0xC0 \<le> r \<and> r \<le> 0xDE \<and> r \<noteq> 0xD7 then r + 32
      else if r = 0x212A then 0x6B
      else r)"

definition graveAWS :: string where
  "graveAWS = [CHR 0xC3, CHR 0x80, CHR ''W'', CHR ''S'']"


text \<open>The store whose status writes fail.\<close>

definition statusOutage :: "World \<Rightarrow> World" where
  "statusOutage w =
     w\<lparr> faults := (\<lambda>request. if request = UpdateStatus then Some (ServerError ''timeout'')
                              else None) \<rparr>"

text \<open>The kubeconfig secret that a reconcile of the example store creates.\<close>

definition exampleKubeconfigSecret :: Secret where
  "exampleKubeconfigSecret =
     \<lparr> SecretMeta = \<lparr> Name = ''test-kubeconfig'', Namespace = ''openshift-cluster-api'',
                      Labels = [''cluster.x-k8s.io/cluster-name'' \<mapsto> ''test''],
                      Annotations = Map.empty, ResourceVersion = 3 \<rparr>,
       Data = [''value'' \<mapsto> ''token: test''],
       Type = ''cluster.x-k8s.io/secret'' \<rparr>"

text \<open>
  A store in which the kubeconfig secret already exists, with the desired labels, data
  and type, and with an annotation set by somebody else.
\<close>

definition annotatedKubeconfigSecret :: Secret where
  "annotatedKubeconfigSecret =
     exampleKubeconfigSecret
       \<lparr> SecretMeta := (SecretMeta exampleKubeconfigSecret)
            \<lparr> Annotations := [''owner'' \<mapsto> ''platform-team''] \<rparr> \<rparr>"

definition annotatedWorld :: World where
  "annotatedWorld =
     (exampleWorld None)
       \<lparr> secrets := (secrets (exampleWorld None))
            ((''openshift-cluster-api'', ''test-kubeconfig'') \<mapsto> annotatedKubeconfigSecret),
         revision := 3 \<rparr>"

text \<open>
  The store after the kubeconfig secret has been created with the desired values, for a
  store that stamps vacuous writes and for one that does not.
\<close>

definition settledWorld :: "bool \<Rightarrow> World" where
  "settledWorld stamps =
     (exampleWorld None)
       \<lparr> secrets := (secrets (exampleWorld None))
            ((''openshift-cluster-api'', ''test-kubeconfig'') \<mapsto> exampleKubeconfigSecret),
         revision := 3,
         stampsVacuousWrites := stamps \<rparr>"

section \<open>Properties of the event filter\<close>

lemma isClusterOperatorCluster_iff:
  assumes "obj \<noteq> NilPointer ClusterOperatorKind"
  shows "isClusterOperatorCluster c obj =
     Inr (\<exists>co. obj = ClusterOperatorObject co \<and> Name co = clusterOperatorName c)"
  using assms by (cases "(c, obj)" rule: isClusterOperatorCluster.cases) simp_all

lemma isInfrastructureCluster_iff:
  assumes "obj \<noteq> NilPointer InfrastructureKind"
  shows "isInfrastructureCluster c obj =
     Inr (\<exists>infra. obj = InfrastructureObject infra
            \<and> Name (InfraMeta infra) = infrastructureResourceName c)"
  using assms by (cases "(c, obj)" rule: isInfrastructureCluster.cases) simp_all

lemma admit_clusterOperator:
  "admit (clusterOperatorPredicates c) n = isClusterOperatorCluster c (subject n)"
  by (induction n rule: subject.induct) (simp_all add: clusterOperatorPredicates_def)

lemma admit_infrastructure:
  "admit (infrastructurePredicates c) n = isInfrastructureCluster c (subject n)"
  by (induction n rule: subject.induct) (simp_all add: infrastructurePredicates_def)

text \<open>
  Claim C8, as stated, fails on one input: when the object of the notification is a nil
  pointer of the filtered type, the type assertion succeeds and reading the name
  dereferences the nil pointer, so the filter panics instead of rejecting.
\<close>

theorem event_filter_nil_pointer_panics:
  "admit (clusterOperatorPredicates exampleConstants)
     (OnCreate (CreateEvent (NilPointer ClusterOperatorKind))) = Inl NilPointerDereference
   \<and> admit (infrastructurePredicates exampleConstants)
     (OnUpdate (UpdateEvent NilObject (NilPointer InfrastructureKind))) = Inl NilPointerDereference"
  by (simp add: clusterOperatorPredicates_def infrastructurePredicates_def)

text \<open>
  Claim C8, amended. For every change notification (create, update, delete or generic)
  whose object (for an update, the new snapshot) is not a nil pointer of the filtered
  type, the cluster-operator filter and the infrastructure filter return a decision
  without a panic, and they admit the notification exactly when its object is of the
  filtered kind and bears the fixed singleton name. Every other such object is rejected:
  an object of another kind, an object of another name, a nil pointer of another type and
  the nil interface.
\<close>

theorem event_filter_admits_exactly_singleton:
  "(subject n \<noteq> NilPointer ClusterOperatorKind \<longrightarrow>
      admit (clusterOperatorPredicates c) n =
        Inr (\<exists>co. subject n = ClusterOperatorObject co \<and> Name co = clusterOperatorName c))
   \<and> (subject n \<noteq> NilPointer InfrastructureKind \<longrightarrow>
      admit (infrastructurePredicates c) n =
        Inr (\<exists>infra. subject n = InfrastructureObject infra
               \<and> Name (InfraMeta infra) = infrastructureResourceName c))"
  by (simp add: admit_clusterOperator admit_infrastructure
        isClusterOperatorCluster_iff isInfrastructureCluster_iff)

theorem event_filter_admits_exactly_singleton_witness:
  "admit (clusterOperatorPredicates exampleConstants)
     (OnUpdate (UpdateEvent NilObject
        (ClusterOperatorObject (InfraMeta (exampleInfrastructure None)\<lparr> Name := ''cluster-api'' \<rparr>))))
     = Inr True
   \<and> admit (infrastructurePredicates exampleConstants)
     (OnUpdate (UpdateEvent NilObject
        (ClusterOperatorObject (InfraMeta (exampleInfrastructure None)\<lparr> Name := ''cluster-api'' \<rparr>))))
     = Inr False
   \<and> admit (clusterOperatorPredicates exampleConstants)
     (OnDelete (DeleteEvent (NilPointer InfrastructureKind))) = Inr False
   \<and> admit (infrastructurePredicates exampleConstants)
     (OnCreate (CreateEvent (InfrastructureObject (exampleInfrastructure None)))) = Inr True
   \<and> admit (infrastructurePredicates exampleConstants) (OnGeneric (GenericEvent NilObject))
     = Inr False"
  using event_filter_admits_exactly_singleton
      [of "OnUpdate (UpdateEvent NilObject
             (ClusterOperatorObject (InfraMeta (exampleInfrastructure None)\<lparr> Name := ''cluster-api'' \<rparr>)))"
          exampleConstants]
    event_filter_admits_exactly_singleton
      [of "OnDelete (DeleteEvent (NilPointer InfrastructureKind))" exampleConstants]
    event_filter_admits_exactly_singleton
      [of "OnCreate (CreateEvent (InfrastructureObject (exampleInfrastructure None)))"
          exampleConstants]
    event_filter_admits_exactly_singleton
      [of "OnGeneric (GenericEvent NilObject)" exampleConstants]
  by (simp add: exampleConstants_def exampleInfrastructure_def)

text \<open>
  Claim C9. The decision of each of the three update filters is a function of the new
  snapshot alone: two update events with the same \<open>ObjectNew\<close> get the same decision
  whatever their \<open>ObjectOld\<close>.
\<close>

theorem update_filter_ignores_old_snapshot:
  "UpdateFunc (clusterOperatorPredicates c) (UpdateEvent old1 new)
     = UpdateFunc (clusterOperatorPredicates c) (UpdateEvent old2 new)
   \<and> UpdateFunc (infrastructurePredicates c) (UpdateEvent old1 new)
     = UpdateFunc (infrastructurePredicates c) (UpdateEvent old2 new)
   \<and> UpdateFunc (featureGatePredicates c) (UpdateEvent old1 new)
     = UpdateFunc (featureGatePredicates c) (UpdateEvent old2 new)"
  by (simp add: clusterOperatorPredicates_def infrastructurePredicates_def
        featureGatePredicates_def)

section \<open>Properties of the derivation function\<close>

lemma DecodeString_example: "DecodeString ''dGVzdA=='' = Some ''test''"
  by code_simp

lemma bearerToken_example: "bearerToken ''dGVzdA=='' = ''test''"
  by (simp add: bearerToken_def DecodeString_example)


text \<open>
  Claim C2. On the test input (token \<open>dGVzdA==\<close>, CA \<open>dGVzdA==\<close>, endpoint
  \<open>https://example.com\<close>, cluster name \<open>test\<close>) the derivation function succeeds; the
  document has the cluster entry \<open>test\<close> with that server and CA data, the context
  \<open>test\<close> bound to cluster \<open>test\<close>, auth entry \<open>cluster-capi-operator\<close> and the managed
  namespace, and the auth entry \<open>cluster-capi-operator\<close> with token \<open>test\<close>.
\<close>

theorem generateKubeconfig_example:
  "generateKubeconfig c
     \<lparr> token = ''dGVzdA=='', caCert = ''dGVzdA=='',
       apiServerEnpoint = ''https://example.com'', clusterName = ''test'' \<rparr>
   = Inr \<lparr> Clusters = [''test'' \<mapsto> \<lparr> Server = ''https://example.com'',
                                      CertificateAuthorityData = ''dGVzdA=='' \<rparr>],
           Contexts = [''test'' \<mapsto> \<lparr> ContextCluster = ''test'',
                                      ContextAuthInfo = ''cluster-capi-operator'',
                                      ContextNamespace = DefaultManagedNamespace c \<rparr>],
           AuthInfos = [''cluster-capi-operator'' \<mapsto> \<lparr> Token = ''test'' \<rparr>] \<rparr>"
  by (simp add: generateKubeconfig_def bearerToken_example)




text \<open>
  Claim C3. Whenever at least one of the four inputs is empty, the call fails with an
  error that names an input field which is indeed empty, and, being a failure, returns no
  document. This holds for each of the four inputs on its own.
\<close>

theorem generateKubeconfig_empty_input:
  assumes "token options = [] \<or> caCert options = []
           \<or> apiServerEnpoint options = [] \<or> clusterName options = []"
  shows "\<exists>field. generateKubeconfig c options = Inl (EmptyInput field) \<and> fieldEmpty options field"
proof (cases "token options = []")
  case True
  then have "generateKubeconfig c options = Inl (EmptyInput FieldToken)"
    by (simp add: generateKubeconfig_def)
  with True show ?thesis by (intro exI [of _ FieldToken]) simp
next
  case tok: False
  show ?thesis
  proof (cases "caCert options = []")
    case True
    with tok have "generateKubeconfig c options = Inl (EmptyInput FieldCaCert)"
      by (simp add: generateKubeconfig_def)
    with True show ?thesis by (intro exI [of _ FieldCaCert]) simp
  next
    case ca: False
    show ?thesis
    proof (cases "apiServerEnpoint options = []")
      case True
      with tok ca have "generateKubeconfig c options = Inl (EmptyInput FieldApiServerEndpoint)"
        by (simp add: generateKubeconfig_def)
      with True show ?thesis by (intro exI [of _ FieldApiServerEndpoint]) simp
    next
      case ep: False
      with tok ca assms have nm: "clusterName options = []" by simp
      with tok ca ep have "generateKubeconfig c options = Inl (EmptyInput FieldClusterName)"
        by (simp add: generateKubeconfig_def)
      with nm show ?thesis by (intro exI [of _ FieldClusterName]) simp
    qed
  qed
qed

theorem generateKubeconfig_empty_input_witness:
  "(\<exists>field. generateKubeconfig exampleConstants (exampleOptions\<lparr> token := [] \<rparr>)
             = Inl (EmptyInput field))
   \<and> (\<exists>field. generateKubeconfig exampleConstants (exampleOptions\<lparr> caCert := [] \<rparr>)
             = Inl (EmptyInput field))
   \<and> (\<exists>field. generateKubeconfig exampleConstants (exampleOptions\<lparr> apiServerEnpoint := [] \<rparr>)
             = Inl (EmptyInput field))
   \<and> (\<exists>field. generateKubeconfig exampleConstants (exampleOptions\<lparr> clusterName := [] \<rparr>)
             = Inl (EmptyInput field))"
  using generateKubeconfig_empty_input [of "exampleOptions\<lparr> token := [] \<rparr>" exampleConstants]
    generateKubeconfig_empty_input [of "exampleOptions\<lparr> caCert := [] \<rparr>" exampleConstants]
    generateKubeconfig_empty_input [of "exampleOptions\<lparr> apiServerEnpoint := [] \<rparr>" exampleConstants]
    generateKubeconfig_empty_input [of "exampleOptions\<lparr> clusterName := [] \<rparr>" exampleConstants]
  by (simp add: exampleOptions_def) blast

section \<open>Properties of the reconcile loop\<close>

lemma tokenSecretRefLoop_example:
  "tokenSecretRefLoop ''cluster-capi-operator-token''
     [\<lparr> RefName = ''cluster-capi-operator-dockercfg-q7q'' \<rparr>,
      \<lparr> RefName = ''cluster-capi-operator-token-x2x'' \<rparr>]
   = Some \<lparr> RefName = ''cluster-capi-operator-token-x2x'' \<rparr>"
  by (simp add: tokenSecretRefLoop_def HasPrefix_def)

lemma ToLower_AWS: "ToLower lowerCase ''AWS'' = ''aws''"
  by code_simp

text \<open>
  A run of \<open>reconcileKubeconfig\<close> on the example store: the token secret is found through
  the service account, the document is derived and serialized, and the kubeconfig secret
  is created with the next revision.
\<close>

lemma reconcileKubeconfig_example:
  "reconcileKubeconfig exampleConstants exampleWrite
     (exampleReconciler\<lparr> reconcilerClusterName := ''test'' \<rparr>)
     (exampleWorld platformStatus)
   = (None, (exampleWorld platformStatus)
        \<lparr> secrets := (secrets (exampleWorld platformStatus))
             ((''openshift-cluster-api'', ''test-kubeconfig'') \<mapsto> exampleKubeconfigSecret),
          revision := 3 \<rparr>)"
  by (simp add: reconcileKubeconfig_def getServiceAccount_def getSecret_def exampleWorld_def
        exampleConstants_def tokenSecretRefLoop_example serviceAccountName_def
        exampleTokenSecret_def index_def generateKubeconfig_def bearerToken_example
        exampleReconciler_def exampleWrite_def kubeconfigSecret_def CreateOrPatch_def
        ObjectKeyFromObject_def mutate_def mutateFn_def createSecret_def store_def
        ClusterLabelName_def ClusterSecretType_def exampleKubeconfigSecret_def)

lemma getInfrastructure_example:
  "getInfrastructure (exampleWorld platformStatus) (InfrastructureResourceName exampleConstants)
     = Inr (exampleInfrastructure platformStatus)"
  by (simp add: getInfrastructure_def exampleWorld_def exampleConstants_def)

text \<open>
  Claim C4, as stated, fails: the infrastructure record is absent and the status write
  fails too. The loop then returns the error of the status write, wrapped, not the read
  error, and the status record holds no Degraded condition.
\<close>

theorem Reconcile_unreadable_status_outage:
  "getInfrastructure (statusOutage ((exampleWorld None)\<lparr> infrastructures := Map.empty \<rparr>))
     (InfrastructureResourceName exampleConstants)
   = Inl (NotFound ''infrastructures'' ''cluster'')
   \<and> Reconcile exampleConstants exampleWrite exampleLowerCase exampleReconciler
       (statusOutage ((exampleWorld None)\<lparr> infrastructures := Map.empty \<rparr>))
   = (Some (Errorf ''error syncing ClusterOperatorStatus: '' (ServerError ''timeout'')),
      exampleReconciler,
      statusOutage ((exampleWorld None)\<lparr> infrastructures := Map.empty \<rparr>))
   \<and> clusterOperatorStatus
       (statusOutage ((exampleWorld None)\<lparr> infrastructures := Map.empty \<rparr>)) = None"
  by (simp add: Reconcile_def SetStatusDegraded_def writeStatus_def getInfrastructure_def
        statusOutage_def exampleWorld_def exampleConstants_def)

text \<open>
  Claim C4, amended. For every reconcile invocation in which the read of the primary
  Infrastructure record fails (not-found included), the loop attempts to write the
  Degraded condition with the underlying cause and performs no further step: an error is
  returned and no secret record is created or modified. When the status write succeeds,
  the status record holds Degraded with the cause and the read error is returned; when
  the status write itself fails, the store is left as it was and the returned error
  reports the failed status write.
\<close>

theorem Reconcile_infrastructure_unreadable:
  assumes "getInfrastructure w (InfrastructureResourceName c) = Inl err"
  shows "Reconcile c Write lowerCase r w =
           (case faults w UpdateStatus of
              None \<Rightarrow> (Some err, r, w\<lparr> clusterOperatorStatus := Some (Degraded err) \<rparr>)
            | Some err' \<Rightarrow> (Some (Errorf ''error syncing ClusterOperatorStatus: '' err'), r, w))
         \<and> fst (Reconcile c Write lowerCase r w) \<noteq> None
         \<and> secrets (snd (snd (Reconcile c Write lowerCase r w))) = secrets w
         \<and> revision (snd (snd (Reconcile c Write lowerCase r w))) = revision w"
  using assms
  by (simp add: Reconcile_def SetStatusDegraded_def writeStatus_def split: option.split)

theorem Reconcile_infrastructure_unreadable_witness:
  "Reconcile exampleConstants exampleWrite exampleLowerCase exampleReconciler
     ((exampleWorld None)\<lparr> infrastructures := Map.empty \<rparr>)
   = (Some (NotFound ''infrastructures'' ''cluster''), exampleReconciler,
      (exampleWorld None)\<lparr> infrastructures := Map.empty,
         clusterOperatorStatus := Some (Degraded (NotFound ''infrastructures'' ''cluster'')) \<rparr>)
   \<and> secrets (snd (snd (Reconcile exampleConstants exampleWrite exampleLowerCase exampleReconciler
        ((exampleWorld None)\<lparr> infrastructures := Map.empty \<rparr>))))
     = secrets (exampleWorld None)"
  using Reconcile_infrastructure_unreadable
    [of "(exampleWorld None)\<lparr> infrastructures := Map.empty \<rparr>" exampleConstants
        "NotFound ''infrastructures'' ''cluster''" exampleWrite exampleLowerCase exampleReconciler]
  by (simp add: getInfrastructure_def exampleWorld_def exampleConstants_def)

text \<open>
  Claim C5, as stated, fails twice. The platform type \<open>AWS\<close> is not a key of the
  supported set \<open>{aws}\<close>, yet the loop proceeds and creates the kubeconfig secret, since
  it looks up the lower-cased type. And when the platform status is absent but the status
  write fails, the loop returns that failure, not success, and Available is not set.
\<close>

theorem Reconcile_gate_counterexample:
  "SupportedPlatforms exampleReconciler ''AWS'' = None
   \<and> secrets (exampleWorld (Some \<lparr> PlatformType = ''AWS'' \<rparr>))
       (''openshift-cluster-api'', ''test-kubeconfig'') = None
   \<and> secrets (snd (snd (Reconcile exampleConstants exampleWrite exampleLowerCase exampleReconciler
         (exampleWorld (Some \<lparr> PlatformType = ''AWS'' \<rparr>)))))
       (''openshift-cluster-api'', ''test-kubeconfig'') = Some exampleKubeconfigSecret
   \<and> InfraPlatformStatus (Status (exampleInfrastructure None)) = None
   \<and> Reconcile exampleConstants exampleWrite exampleLowerCase exampleReconciler (statusOutage (exampleWorld None))
     = (Some (ServerError ''timeout''), exampleReconciler, statusOutage (exampleWorld None))
   \<and> clusterOperatorStatus (statusOutage (exampleWorld None)) = None"
proof -
  have proceed:
    "Reconcile exampleConstants exampleWrite exampleLowerCase exampleReconciler
       (exampleWorld (Some \<lparr> PlatformType = ''AWS'' \<rparr>))
     = (None, exampleReconciler\<lparr> reconcilerClusterName := ''test'' \<rparr>,
        (exampleWorld (Some \<lparr> PlatformType = ''AWS'' \<rparr>))
          \<lparr> secrets := (secrets (exampleWorld (Some \<lparr> PlatformType = ''AWS'' \<rparr>)))
               ((''openshift-cluster-api'', ''test-kubeconfig'') \<mapsto> exampleKubeconfigSecret),
            revision := 3, clusterOperatorStatus := Some Available \<rparr>)"
  proof -
    have supported: "SupportedPlatforms exampleReconciler ''aws'' = Some True"
      by (simp add: exampleReconciler_def)
    have writable: "faults (exampleWorld (Some \<lparr> PlatformType = ''AWS'' \<rparr>)) UpdateStatus = None"
      by (simp add: exampleWorld_def)
    show ?thesis
      by (simp add: Reconcile_def getInfrastructure_example exampleInfrastructure_def ToLower_AWS
            Let_def supported reconcileKubeconfig_example SetStatusAvailable_def writeStatus_def
            writable)
  qed
  have skip:
    "Reconcile exampleConstants exampleWrite exampleLowerCase exampleReconciler (statusOutage (exampleWorld None))
     = (Some (ServerError ''timeout''), exampleReconciler, statusOutage (exampleWorld None))"
    by (simp add: Reconcile_def getInfrastructure_def SetStatusAvailable_def writeStatus_def
          statusOutage_def exampleWorld_def exampleConstants_def exampleInfrastructure_def)
  show ?thesis
    by (simp add: proceed skip)
       (simp add: exampleReconciler_def exampleWorld_def exampleInfrastructure_def statusOutage_def)
qed

text \<open>
  Claim C5, amended. For every reconcile invocation in which the primary record is
  readable but its platform status is absent, or its lower-cased platform type is not a
  key of the supported-platform set, the loop attempts to set the status to Available and
  returns the result of that status write: success with the status Available when the
  write succeeds, the write's error with the store left as it was when it fails. In both
  cases no secret record is created or modified.
\<close>

theorem Reconcile_not_applicable:
  assumes "getInfrastructure w (InfrastructureResourceName c) = Inr infra"
    and "InfraPlatformStatus (Status infra) = None
         \<or> (\<exists>platformStatus. InfraPlatformStatus (Status infra) = Some platformStatus
              \<and> SupportedPlatforms r (ToLower lowerCase (PlatformType platformStatus)) = None)"
  shows "fst (Reconcile c Write lowerCase r w) = faults w UpdateStatus
         \<and> snd (snd (Reconcile c Write lowerCase r w)) =
             (case faults w UpdateStatus of
                None \<Rightarrow> w\<lparr> clusterOperatorStatus := Some Available \<rparr>
              | Some err \<Rightarrow> w)
         \<and> secrets (snd (snd (Reconcile c Write lowerCase r w))) = secrets w
         \<and> revision (snd (snd (Reconcile c Write lowerCase r w))) = revision w"
  using assms
  by (auto simp add: Reconcile_def SetStatusAvailable_def writeStatus_def Let_def
        split: option.split)

theorem Reconcile_not_applicable_witness:
  "Reconcile exampleConstants exampleWrite exampleLowerCase exampleReconciler (exampleWorld None)
     = (None, exampleReconciler, (exampleWorld None)\<lparr> clusterOperatorStatus := Some Available \<rparr>)
   \<and> fst (Reconcile exampleConstants exampleWrite exampleLowerCase exampleReconciler
        (exampleWorld (Some \<lparr> PlatformType = ''GCP'' \<rparr>))) = None
   \<and> snd (snd (Reconcile exampleConstants exampleWrite exampleLowerCase exampleReconciler
        (exampleWorld (Some \<lparr> PlatformType = ''GCP'' \<rparr>))))
     = (exampleWorld (Some \<lparr> PlatformType = ''GCP'' \<rparr>))\<lparr> clusterOperatorStatus := Some Available \<rparr>"
proof -
  have gcp: "ToLower exampleLowerCase ''GCP'' = ''gcp''" by code_simp
  have absent:
    "Reconcile exampleConstants exampleWrite exampleLowerCase exampleReconciler (exampleWorld None)
     = (None, exampleReconciler, (exampleWorld None)\<lparr> clusterOperatorStatus := Some Available \<rparr>)"
    by (simp add: Reconcile_def getInfrastructure_example exampleInfrastructure_def
          SetStatusAvailable_def writeStatus_def)
       (simp add: exampleWorld_def)
  have unsupported: "SupportedPlatforms exampleReconciler ''gcp'' = None"
    by (simp add: exampleReconciler_def)
  have "faults (exampleWorld (Some \<lparr> PlatformType = ''GCP'' \<rparr>)) UpdateStatus = None"
    by (simp add: exampleWorld_def)
  with Reconcile_not_applicable
    [of "exampleWorld (Some \<lparr> PlatformType = ''GCP'' \<rparr>)" exampleConstants
        "exampleInfrastructure (Some \<lparr> PlatformType = ''GCP'' \<rparr>)" exampleReconciler
        exampleLowerCase exampleWrite]
  show ?thesis
    by (simp add: absent getInfrastructure_example exampleInfrastructure_def gcp unsupported)
qed

section \<open>Properties of the upsert\<close>

lemma applyMap_diffMap: "applyMap (diffMap original modified) original = modified"
  by (auto simp add: applyMap_def diffMap_def fun_eq_iff)

lemma mutateFn_replaces: "mutateFn obj s = Inr obj"
  by (simp add: mutateFn_def)

lemma mutate_mutateFn: "mutate (mutateFn obj) (ObjectKeyFromObject obj) s = Inr obj"
  by (simp add: mutate_def mutateFn_replaces)

lemma applyPatch_MergeFrom:
  "applyPatch (MergeFrom before obj) before =
     before\<lparr> SecretMeta := (SecretMeta before)
                \<lparr> Labels := Labels (SecretMeta obj),
                  Annotations := Annotations (SecretMeta obj) \<rparr>,
             Data := Data obj, Type := Type obj \<rparr>"
  by (simp add: applyPatch_def MergeFrom_def diffScalar_def applyMap_diffMap)

text \<open>\<open>CreateOrPatch\<close> with the closure of \<open>reconcileKubeconfig\<close>, the closure resolved.\<close>

lemma CreateOrPatch_mutateFn:
  "CreateOrPatch w obj (mutateFn obj) =
     (case getSecret w (ObjectKeyFromObject obj) of
        Inl err \<Rightarrow>
          if \<not> IsNotFound err then (Inl err, w)
          else
            (case createSecret w obj of
               Inl err \<Rightarrow> (Inl err, w)
             | Inr w' \<Rightarrow> (Inr OperationResultCreated, w'))
      | Inr before \<Rightarrow>
          if before \<noteq> obj then
            (case patchSecret w (ObjectKeyFromObject obj) (MergeFrom before obj) of
               Inl err \<Rightarrow> (Inl err, w)
             | Inr w' \<Rightarrow> (Inr OperationResultUpdated, w'))
          else (Inr OperationResultNone, w))"
  by (simp add: CreateOrPatch_def mutate_mutateFn Let_def split: sum.split)

lemma applyPatch_MergeFrom_owned:
  "ownedFields (applyPatch (MergeFrom before obj) before) = ownedFields obj"
  by (simp add: applyPatch_MergeFrom ownedFields_def)

lemma applyPatch_MergeFrom_same:
  "ownedFields before = ownedFields obj \<Longrightarrow> applyPatch (MergeFrom before obj) before = before"
  by (simp add: applyPatch_MergeFrom ownedFields_def)

lemma applyPatch_MergeFrom_identity:
  "Name (SecretMeta (applyPatch (MergeFrom before obj) before)) = Name (SecretMeta before)
   \<and> Namespace (SecretMeta (applyPatch (MergeFrom before obj) before))
       = Namespace (SecretMeta before)"
  by (simp add: applyPatch_MergeFrom)

lemma store_simps:
  "secrets (store w key s) =
     (secrets w)(key \<mapsto> s\<lparr> SecretMeta := (SecretMeta s)\<lparr> ResourceVersion := Suc (revision w) \<rparr> \<rparr>)"
  "revision (store w key s) = Suc (revision w)"
  "faults (store w key s) = faults w"
  "stampsVacuousWrites (store w key s) = stampsVacuousWrites w"
  "infrastructures (store w key s) = infrastructures w"
  "serviceAccounts (store w key s) = serviceAccounts w"
  "clusterOperatorStatus (store w key s) = clusterOperatorStatus w"
  by (simp_all add: store_def)

lemma ownedFields_revision:
  "ownedFields (s\<lparr> SecretMeta := (SecretMeta s)\<lparr> ResourceVersion := n \<rparr> \<rparr>) = ownedFields s"
  by (simp add: ownedFields_def)

lemma withoutRevision_revision:
  "withoutRevision (s\<lparr> SecretMeta := (SecretMeta s)\<lparr> ResourceVersion := n \<rparr> \<rparr>) = withoutRevision s"
  by (simp add: withoutRevision_def)

text \<open>Writing a stored record again changes nothing but revisions.\<close>

lemma contents_store_same:
  assumes "secrets w key = Some cur"
  shows "contents (store w key cur) = contents w"
proof -
  have "(\<lambda>k. map_option withoutRevision (secrets (store w key cur) k))
          = (\<lambda>k. map_option withoutRevision (secrets w k))"
    using assms by (auto simp add: store_simps withoutRevision_revision fun_eq_iff)
  then show ?thesis
    by (simp add: contents_def store_def)
qed

text \<open>
  What one upsert does to the store. Either nothing, and then a successful upsert found
  the desired values already stored; or one write under the key: of the desired record
  when there was none, and of the patched record when the stored one differed or the
  store stamps vacuous writes.
\<close>

lemma CreateOrPatch_effect:
  assumes "CreateOrPatch w obj (mutateFn obj) = (res, w')"
  shows "(w' = w
          \<and> ((\<exists>ok. res = Inr ok) \<longrightarrow>
               (\<exists>cur. secrets w (ObjectKeyFromObject obj) = Some cur
                  \<and> ownedFields cur = ownedFields obj)))
         \<or> (\<exists>s. w' = store w (ObjectKeyFromObject obj) s \<and> ownedFields s = ownedFields obj
                \<and> (\<exists>ok. res = Inr ok)
                \<and> (case secrets w (ObjectKeyFromObject obj) of
                      None \<Rightarrow> s = obj
                    | Some cur \<Rightarrow> s = applyPatch (MergeFrom cur obj) cur
                        \<and> (ownedFields cur \<noteq> ownedFields obj \<or> stampsVacuousWrites w)))"
proof (cases "getSecret w (ObjectKeyFromObject obj)")
  case (Inl err)
  show ?thesis
  proof (cases "IsNotFound err")
    case False
    with Inl assms show ?thesis by (auto simp add: CreateOrPatch_mutateFn)
  next
    case True
    show ?thesis
    proof (cases "createSecret w obj")
      case (Inl err')
      with \<open>getSecret w (ObjectKeyFromObject obj) = Inl err\<close> True assms
      show ?thesis by (auto simp add: CreateOrPatch_mutateFn)
    next
      case (Inr w1)
      then have "w1 = store w (ObjectKeyFromObject obj) obj"
        and "secrets w (ObjectKeyFromObject obj) = None"
        by (auto simp add: createSecret_def Let_def split: option.splits)
      with Inr \<open>getSecret w (ObjectKeyFromObject obj) = Inl err\<close> True assms
      show ?thesis by (auto simp add: CreateOrPatch_mutateFn)
    qed
  qed
next
  case (Inr before)
  then have stored: "secrets w (ObjectKeyFromObject obj) = Some before"
    by (auto simp add: getSecret_def split: option.splits)
  show ?thesis
  proof (cases "before = obj")
    case True
    with Inr assms stored show ?thesis by (auto simp add: CreateOrPatch_mutateFn)
  next
    case False
    show ?thesis
    proof (cases "patchSecret w (ObjectKeyFromObject obj) (MergeFrom before obj)")
      case (Inl err)
      with Inr False assms show ?thesis by (auto simp add: CreateOrPatch_mutateFn)
    next
      case (Inr w1)
      with stored have "(w1 = w \<and> applyPatch (MergeFrom before obj) before = before) \<or>
        (w1 = store w (ObjectKeyFromObject obj) (applyPatch (MergeFrom before obj) before)
         \<and> (applyPatch (MergeFrom before obj) before \<noteq> before \<or> stampsVacuousWrites w))"
        by (auto simp add: patchSecret_def split: option.splits if_splits)
      moreover have "applyPatch (MergeFrom before obj) before \<noteq> before
                     \<Longrightarrow> ownedFields before \<noteq> ownedFields obj"
        using applyPatch_MergeFrom_same by blast
      moreover have "applyPatch (MergeFrom before obj) before = before
                     \<Longrightarrow> ownedFields before = ownedFields obj"
        using applyPatch_MergeFrom_owned [of before obj] by simp
      moreover have "w' = w1" and "res = Inr OperationResultUpdated"
        using Inr \<open>getSecret w (ObjectKeyFromObject obj) = Inr before\<close> False assms
        by (simp_all add: CreateOrPatch_mutateFn)
      ultimately show ?thesis
        using stored applyPatch_MergeFrom_owned [of before obj] by auto
    qed
  qed
qed

text \<open>
  An upsert on a store that already holds the desired values changes nothing but
  revisions, and changes nothing at all when the store does not stamp vacuous writes.
\<close>

lemma CreateOrPatch_stable:
  assumes "secrets w (ObjectKeyFromObject obj) = Some cur"
    and "ownedFields cur = ownedFields obj"
  shows "contents (snd (CreateOrPatch w obj (mutateFn obj))) = contents w
         \<and> (\<not> stampsVacuousWrites w \<longrightarrow> snd (CreateOrPatch w obj (mutateFn obj)) = w)"
proof -
  obtain res w' where run: "CreateOrPatch w obj (mutateFn obj) = (res, w')"
    by (cases "CreateOrPatch w obj (mutateFn obj)")
  from CreateOrPatch_effect [OF run] assms
  have "w' = w \<or> (w' = store w (ObjectKeyFromObject obj) cur \<and> stampsVacuousWrites w)"
    by (auto simp add: applyPatch_MergeFrom_same)
  with assms(1) run show ?thesis
    by (auto simp add: contents_store_same)
qed

lemma CreateOrPatch_twice:
  "contents (snd (CreateOrPatch (snd (CreateOrPatch w obj (mutateFn obj))) obj (mutateFn obj)))
     = contents (snd (CreateOrPatch w obj (mutateFn obj)))
   \<and> (\<not> stampsVacuousWrites w \<longrightarrow>
        snd (CreateOrPatch (snd (CreateOrPatch w obj (mutateFn obj))) obj (mutateFn obj))
          = snd (CreateOrPatch w obj (mutateFn obj)))"
proof -
  obtain res w' where run: "CreateOrPatch w obj (mutateFn obj) = (res, w')"
    by (cases "CreateOrPatch w obj (mutateFn obj)")
  from CreateOrPatch_effect [OF run]
  consider (kept) "w' = w" "(\<exists>ok. res = Inr ok) \<longrightarrow>
             (\<exists>cur. secrets w (ObjectKeyFromObject obj) = Some cur
                \<and> ownedFields cur = ownedFields obj)"
    | (written) s where "w' = store w (ObjectKeyFromObject obj) s"
        "ownedFields s = ownedFields obj"
    by blast
  then have "contents (snd (CreateOrPatch w' obj (mutateFn obj))) = contents w'
             \<and> (\<not> stampsVacuousWrites w \<longrightarrow> snd (CreateOrPatch w' obj (mutateFn obj)) = w')"
  proof cases
    case kept
    with run show ?thesis by simp
  next
    case written
    have "contents (snd (CreateOrPatch w' obj (mutateFn obj))) = contents w'
          \<and> (\<not> stampsVacuousWrites w' \<longrightarrow> snd (CreateOrPatch w' obj (mutateFn obj)) = w')"
      by (rule CreateOrPatch_stable
            [where cur = "s\<lparr> SecretMeta := (SecretMeta s)\<lparr> ResourceVersion := Suc (revision w) \<rparr> \<rparr>"])
         (simp_all add: written store_simps ownedFields_revision)
    then show ?thesis by (simp add: written store_simps)
  qed
  with run show ?thesis by simp
qed

text \<open>After a successful upsert the key holds the desired values and no other key changed.\<close>

lemma CreateOrPatch_success:
  assumes "CreateOrPatch w obj (mutateFn obj) = (Inr ok, w')"
  shows "(\<exists>s. secrets w' (ObjectKeyFromObject obj) = Some s \<and> ownedFields s = ownedFields obj)
         \<and> dom (secrets w') = insert (ObjectKeyFromObject obj) (dom (secrets w))
         \<and> (\<forall>key. key \<noteq> ObjectKeyFromObject obj \<longrightarrow> secrets w' key = secrets w key)
         \<and> infrastructures w' = infrastructures w
         \<and> serviceAccounts w' = serviceAccounts w
         \<and> clusterOperatorStatus w' = clusterOperatorStatus w"
  using CreateOrPatch_effect [OF assms]
  by (auto simp add: store_simps ownedFields_revision)

text \<open>One upsert of the desired kubeconfig secret into the store that holds the annotated one.\<close>

lemma CreateOrPatch_annotated:
  "CreateOrPatch annotatedWorld (kubeconfigSecret exampleConstants ''test'' ''token: test'')
     (mutateFn (kubeconfigSecret exampleConstants ''test'' ''token: test''))
   = (Inr OperationResultUpdated,
      annotatedWorld
        \<lparr> secrets := (secrets annotatedWorld)
             ((''openshift-cluster-api'', ''test-kubeconfig'') \<mapsto>
                exampleKubeconfigSecret
                  \<lparr> SecretMeta := (SecretMeta exampleKubeconfigSecret)\<lparr> ResourceVersion := 4 \<rparr> \<rparr>),
           revision := 4 \<rparr>)"
proof -
  let ?desired = "kubeconfigSecret exampleConstants ''test'' ''token: test''"
  have key: "ObjectKeyFromObject ?desired = (''openshift-cluster-api'', ''test-kubeconfig'')"
    by (simp add: ObjectKeyFromObject_def kubeconfigSecret_def exampleConstants_def)
  have read: "getSecret annotatedWorld (''openshift-cluster-api'', ''test-kubeconfig'')
                = Inr annotatedKubeconfigSecret"
    by (simp add: getSecret_def annotatedWorld_def exampleWorld_def)
  have differ: "annotatedKubeconfigSecret \<noteq> ?desired"
    by (simp add: annotatedKubeconfigSecret_def exampleKubeconfigSecret_def kubeconfigSecret_def)
  have patched: "applyPatch (MergeFrom annotatedKubeconfigSecret ?desired) annotatedKubeconfigSecret
                   = exampleKubeconfigSecret"
    by (simp add: applyPatch_MergeFrom annotatedKubeconfigSecret_def exampleKubeconfigSecret_def
          kubeconfigSecret_def ClusterLabelName_def ClusterSecretType_def)
  have "annotatedKubeconfigSecret \<noteq> exampleKubeconfigSecret"
    by (simp add: annotatedKubeconfigSecret_def exampleKubeconfigSecret_def)
  then have changed: "exampleKubeconfigSecret \<noteq> annotatedKubeconfigSecret"
    by (rule not_sym)
  have unconditional:
    "patchResourceVersion (MergeFrom annotatedKubeconfigSecret ?desired) = Some 0"
    by (simp add: MergeFrom_def diffScalar_def annotatedKubeconfigSecret_def
          exampleKubeconfigSecret_def kubeconfigSecret_def)
  have patch: "patchSecret annotatedWorld (''openshift-cluster-api'', ''test-kubeconfig'')
                 (MergeFrom annotatedKubeconfigSecret ?desired)
               = Inr (store annotatedWorld (''openshift-cluster-api'', ''test-kubeconfig'')
                        exampleKubeconfigSecret)"
  proof -
    have lookup: "secrets annotatedWorld (''openshift-cluster-api'', ''test-kubeconfig'')
                    = Some annotatedKubeconfigSecret"
      by (simp add: annotatedWorld_def)
    have served: "faults annotatedWorld
                    (PatchSecret (''openshift-cluster-api'', ''test-kubeconfig'')) = None"
      by (simp add: annotatedWorld_def exampleWorld_def)
    show ?thesis
      by (simp add: patchSecret_def lookup served unconditional patched changed)
  qed
  show ?thesis
    by (simp add: CreateOrPatch_mutateFn key read differ patch)
       (simp add: store_def annotatedWorld_def)
qed

text \<open>
  One upsert of the desired kubeconfig secret into the store that already holds it: the
  patch is sent, since the closure has cleared the revision of the object, and it changes
  nothing. A store that stamps vacuous writes moves the revision from 3 to 4.
\<close>

lemma CreateOrPatch_settled:
  "CreateOrPatch (settledWorld stamps) (kubeconfigSecret exampleConstants ''test'' ''token: test'')
     (mutateFn (kubeconfigSecret exampleConstants ''test'' ''token: test''))
   = (Inr OperationResultUpdated,
      if stamps then
        (settledWorld stamps)
          \<lparr> secrets := (secrets (settledWorld stamps))
               ((''openshift-cluster-api'', ''test-kubeconfig'') \<mapsto>
                  exampleKubeconfigSecret
                    \<lparr> SecretMeta := (SecretMeta exampleKubeconfigSecret)\<lparr> ResourceVersion := 4 \<rparr> \<rparr>),
             revision := 4 \<rparr>
      else settledWorld stamps)"
proof -
  let ?desired = "kubeconfigSecret exampleConstants ''test'' ''token: test''"
  have key: "ObjectKeyFromObject ?desired = (''openshift-cluster-api'', ''test-kubeconfig'')"
    by (simp add: ObjectKeyFromObject_def kubeconfigSecret_def exampleConstants_def)
  have read: "getSecret (settledWorld stamps) (''openshift-cluster-api'', ''test-kubeconfig'')
                = Inr exampleKubeconfigSecret"
    by (simp add: getSecret_def settledWorld_def exampleWorld_def)
  have differ: "exampleKubeconfigSecret \<noteq> ?desired"
    by (simp add: exampleKubeconfigSecret_def kubeconfigSecret_def)
  have patched: "applyPatch (MergeFrom exampleKubeconfigSecret ?desired) exampleKubeconfigSecret
                   = exampleKubeconfigSecret"
    by (rule applyPatch_MergeFrom_same)
       (simp add: ownedFields_def exampleKubeconfigSecret_def kubeconfigSecret_def
          ClusterLabelName_def ClusterSecretType_def)
  have unconditional:
    "patchResourceVersion (MergeFrom exampleKubeconfigSecret ?desired) = Some 0"
    by (simp add: MergeFrom_def diffScalar_def exampleKubeconfigSecret_def kubeconfigSecret_def)
  have lookup: "secrets (settledWorld stamps) (''openshift-cluster-api'', ''test-kubeconfig'')
                  = Some exampleKubeconfigSecret"
    by (simp add: settledWorld_def)
  have served: "faults (settledWorld stamps)
                  (PatchSecret (''openshift-cluster-api'', ''test-kubeconfig'')) = None"
    by (simp add: settledWorld_def exampleWorld_def)
  have trait: "stampsVacuousWrites (settledWorld stamps) = stamps"
    by (simp add: settledWorld_def)
  have patch: "patchSecret (settledWorld stamps) (''openshift-cluster-api'', ''test-kubeconfig'')
                 (MergeFrom exampleKubeconfigSecret ?desired)
               = Inr (if stamps
                      then store (settledWorld stamps)
                             (''openshift-cluster-api'', ''test-kubeconfig'') exampleKubeconfigSecret
                      else settledWorld stamps)"
    by (simp add: patchSecret_def lookup served unconditional patched trait)
  show ?thesis
    by (simp add: CreateOrPatch_mutateFn key read differ patch)
       (simp add: store_def settledWorld_def)
qed

lemma CreateOrPatch_fresh:
  "CreateOrPatch ((exampleWorld None)\<lparr> stampsVacuousWrites := stamps \<rparr>)
     (kubeconfigSecret exampleConstants ''test'' ''token: test'')
     (mutateFn (kubeconfigSecret exampleConstants ''test'' ''token: test''))
   = (Inr OperationResultCreated, settledWorld stamps)"
  by (simp add: CreateOrPatch_mutateFn getSecret_def createSecret_def store_def
        ObjectKeyFromObject_def kubeconfigSecret_def exampleConstants_def exampleWorld_def
        exampleKubeconfigSecret_def ClusterLabelName_def ClusterSecretType_def settledWorld_def)

text \<open>
  Claim C6, as stated, fails. The stored kubeconfig secret already has the desired
  labels, data and type, and carries an annotation \<open>owner\<close> that the protocol never set.
  The upsert removes the annotation, and the store gives the record a new revision.
\<close>

theorem upsert_drops_annotations:
  "secrets annotatedWorld (''openshift-cluster-api'', ''test-kubeconfig'')
     = Some annotatedKubeconfigSecret
   \<and> Annotations (SecretMeta annotatedKubeconfigSecret) ''owner'' = Some ''platform-team''
   \<and> ResourceVersion (SecretMeta annotatedKubeconfigSecret) = 3
   \<and> fst (CreateOrPatch annotatedWorld (kubeconfigSecret exampleConstants ''test'' ''token: test'')
            (mutateFn (kubeconfigSecret exampleConstants ''test'' ''token: test'')))
     = Inr OperationResultUpdated
   \<and> map_option (\<lambda>s. (Annotations (SecretMeta s) ''owner'', ResourceVersion (SecretMeta s)))
       (secrets (snd (CreateOrPatch annotatedWorld
                        (kubeconfigSecret exampleConstants ''test'' ''token: test'')
                        (mutateFn (kubeconfigSecret exampleConstants ''test'' ''token: test''))))
          (''openshift-cluster-api'', ''test-kubeconfig''))
     = Some (None, 4)"
  by (simp add: CreateOrPatch_annotated)
     (simp add: annotatedWorld_def annotatedKubeconfigSecret_def exampleKubeconfigSecret_def)

text \<open>
  Claim C6, amended. When the secondary secret record already exists and the upsert
  succeeds, the stored record has the desired labels, annotations, payload data and type:
  the metadata of the desired record replaces the stored one, so annotations that the
  desired record does not carry are removed. Its name and namespace, every other record
  and the status are left as they were. A record that changes gets the store's next
  revision. A record that already has the desired values keeps all its contents; the patch
  is sent all the same, so whether its revision moves is the store's affair: nothing but
  revisions changes in the store, and nothing at all when the store does not stamp
  vacuous writes.
\<close>

theorem upsert_patches_existing:
  assumes "getSecret w (ObjectKeyFromObject desired) = Inr cur"
    and "CreateOrPatch w desired (mutateFn desired) = (Inr ok, w')"
  shows "\<exists>s. secrets w' (ObjectKeyFromObject desired) = Some s
           \<and> ownedFields s = ownedFields desired
           \<and> Name (SecretMeta s) = Name (SecretMeta cur)
           \<and> Namespace (SecretMeta s) = Namespace (SecretMeta cur)
           \<and> (ownedFields cur \<noteq> ownedFields desired \<longrightarrow>
                 ResourceVersion (SecretMeta s) = Suc (revision w))
           \<and> (ownedFields cur = ownedFields desired \<longrightarrow>
                 withoutRevision s = withoutRevision cur \<and> contents w' = contents w
                 \<and> (\<not> stampsVacuousWrites w \<longrightarrow> w' = w \<and> s = cur))
           \<and> (\<forall>key. key \<noteq> ObjectKeyFromObject desired \<longrightarrow> secrets w' key = secrets w key)
           \<and> infrastructures w' = infrastructures w
           \<and> serviceAccounts w' = serviceAccounts w
           \<and> clusterOperatorStatus w' = clusterOperatorStatus w"
proof -
  from assms(1) have stored: "secrets w (ObjectKeyFromObject desired) = Some cur"
    by (auto simp add: getSecret_def split: option.splits)
  from CreateOrPatch_effect [OF assms(2)] stored
  consider (kept) "w' = w" "ownedFields cur = ownedFields desired"
    | (changed) "w' = store w (ObjectKeyFromObject desired)
                        (applyPatch (MergeFrom cur desired) cur)"
        "ownedFields cur \<noteq> ownedFields desired"
    | (stamped) "w' = store w (ObjectKeyFromObject desired) cur"
        "ownedFields cur = ownedFields desired" "stampsVacuousWrites w"
    by (cases "ownedFields cur = ownedFields desired")
       (auto simp add: applyPatch_MergeFrom_same)
  then show ?thesis
  proof cases
    case kept
    with stored show ?thesis by simp
  next
    case changed
    then show ?thesis
      by (simp add: store_simps ownedFields_revision applyPatch_MergeFrom_owned
            applyPatch_MergeFrom_identity)
  next
    case stamped
    with stored show ?thesis
      by (simp add: store_simps ownedFields_revision withoutRevision_revision
            contents_store_same)
  qed
qed

theorem upsert_patches_existing_witness:
  "(\<exists>s. secrets (snd (CreateOrPatch annotatedWorld
                       (kubeconfigSecret exampleConstants ''test'' ''token: test'')
                       (mutateFn (kubeconfigSecret exampleConstants ''test'' ''token: test''))))
          (''openshift-cluster-api'', ''test-kubeconfig'') = Some s
      \<and> ownedFields s = ownedFields (kubeconfigSecret exampleConstants ''test'' ''token: test'')
      \<and> Name (SecretMeta s) = ''test-kubeconfig''
      \<and> Namespace (SecretMeta s) = ''openshift-cluster-api''
      \<and> ResourceVersion (SecretMeta s) = 4)
   \<and> (\<exists>s. secrets (snd (CreateOrPatch (settledWorld True)
                       (kubeconfigSecret exampleConstants ''test'' ''token: test'')
                       (mutateFn (kubeconfigSecret exampleConstants ''test'' ''token: test''))))
          (''openshift-cluster-api'', ''test-kubeconfig'') = Some s
      \<and> withoutRevision s = withoutRevision exampleKubeconfigSecret
      \<and> ResourceVersion (SecretMeta s) = 4)
   \<and> snd (CreateOrPatch (settledWorld False)
            (kubeconfigSecret exampleConstants ''test'' ''token: test'')
            (mutateFn (kubeconfigSecret exampleConstants ''test'' ''token: test'')))
     = settledWorld False"
proof -
  let ?desired = "kubeconfigSecret exampleConstants ''test'' ''token: test''"
  have key: "ObjectKeyFromObject ?desired = (''openshift-cluster-api'', ''test-kubeconfig'')"
    by (simp add: ObjectKeyFromObject_def kubeconfigSecret_def exampleConstants_def)
  have read: "getSecret annotatedWorld (ObjectKeyFromObject ?desired)
                = Inr annotatedKubeconfigSecret"
    by (simp add: key getSecret_def annotatedWorld_def exampleWorld_def)
  have differ: "ownedFields annotatedKubeconfigSecret \<noteq> ownedFields ?desired"
    by (simp add: ownedFields_def annotatedKubeconfigSecret_def exampleKubeconfigSecret_def
          kubeconfigSecret_def)
  have rev: "revision annotatedWorld = 3"
    by (simp add: annotatedWorld_def)
  have ident: "Name (SecretMeta annotatedKubeconfigSecret) = ''test-kubeconfig''
               \<and> Namespace (SecretMeta annotatedKubeconfigSecret) = ''openshift-cluster-api''"
    by (simp add: annotatedKubeconfigSecret_def exampleKubeconfigSecret_def)
  have settled: "getSecret (settledWorld True) (ObjectKeyFromObject ?desired)
                   = Inr exampleKubeconfigSecret"
    by (simp add: key getSecret_def settledWorld_def exampleWorld_def)
  have same: "ownedFields exampleKubeconfigSecret = ownedFields ?desired"
    by (simp add: ownedFields_def exampleKubeconfigSecret_def kubeconfigSecret_def
          ClusterLabelName_def ClusterSecretType_def)
  have stamped: "secrets (snd (CreateOrPatch (settledWorld True) ?desired (mutateFn ?desired)))
                   (''openshift-cluster-api'', ''test-kubeconfig'')
                 = Some (exampleKubeconfigSecret
                     \<lparr> SecretMeta := (SecretMeta exampleKubeconfigSecret)\<lparr> ResourceVersion := 4 \<rparr> \<rparr>)"
    by (simp add: CreateOrPatch_settled)
  from upsert_patches_existing [OF read CreateOrPatch_annotated]
  have changed: "\<exists>s. secrets (snd (CreateOrPatch annotatedWorld ?desired (mutateFn ?desired)))
          (''openshift-cluster-api'', ''test-kubeconfig'') = Some s
      \<and> ownedFields s = ownedFields ?desired
      \<and> Name (SecretMeta s) = ''test-kubeconfig''
      \<and> Namespace (SecretMeta s) = ''openshift-cluster-api''
      \<and> ResourceVersion (SecretMeta s) = 4"
    by (simp add: CreateOrPatch_annotated key differ rev ident)
  from upsert_patches_existing [OF settled, of OperationResultUpdated
      "snd (CreateOrPatch (settledWorld True) ?desired (mutateFn ?desired))"]
  have kept: "\<exists>s. secrets (snd (CreateOrPatch (settledWorld True) ?desired (mutateFn ?desired)))
          (''openshift-cluster-api'', ''test-kubeconfig'') = Some s
      \<and> withoutRevision s = withoutRevision exampleKubeconfigSecret
      \<and> ResourceVersion (SecretMeta s) = 4"
    by (simp add: CreateOrPatch_settled key same stamped)
  show ?thesis
    using changed kept by (simp add: CreateOrPatch_settled)
qed

text \<open>
  Claim C7. Invoking the upsert twice in sequence with the same desired kubeconfig secret
  leaves the store as one invocation leaves it: the stores agree in everything but the
  revisions that the store assigns, and they are equal outright when the store does not
  stamp vacuous writes. When the first invocation succeeds, the store holds a record under
  the key (managed namespace, \<open><clusterName>-kubeconfig\<close>) with the desired values, and the
  only key it may have gained is that one.
\<close>

theorem upsert_idempotent:
  "contents (snd (CreateOrPatch
          (snd (CreateOrPatch w (kubeconfigSecret c name out)
                  (mutateFn (kubeconfigSecret c name out))))
          (kubeconfigSecret c name out) (mutateFn (kubeconfigSecret c name out))))
     = contents (snd (CreateOrPatch w (kubeconfigSecret c name out)
              (mutateFn (kubeconfigSecret c name out))))
   \<and> (\<not> stampsVacuousWrites w \<longrightarrow>
        snd (CreateOrPatch
               (snd (CreateOrPatch w (kubeconfigSecret c name out)
                       (mutateFn (kubeconfigSecret c name out))))
               (kubeconfigSecret c name out) (mutateFn (kubeconfigSecret c name out)))
          = snd (CreateOrPatch w (kubeconfigSecret c name out)
                   (mutateFn (kubeconfigSecret c name out))))
   \<and> ((\<exists>ok. fst (CreateOrPatch w (kubeconfigSecret c name out)
                    (mutateFn (kubeconfigSecret c name out))) = Inr ok) \<longrightarrow>
        (\<exists>s. secrets (snd (CreateOrPatch w (kubeconfigSecret c name out)
                             (mutateFn (kubeconfigSecret c name out))))
                (DefaultManagedNamespace c, name @ ''-kubeconfig'') = Some s
              \<and> ownedFields s = ownedFields (kubeconfigSecret c name out))
        \<and> dom (secrets (snd (CreateOrPatch w (kubeconfigSecret c name out)
                               (mutateFn (kubeconfigSecret c name out)))))
            = insert (DefaultManagedNamespace c, name @ ''-kubeconfig'') (dom (secrets w)))"
proof -
  let ?desired = "kubeconfigSecret c name out"
  have key: "ObjectKeyFromObject ?desired = (DefaultManagedNamespace c, name @ ''-kubeconfig'')"
    by (simp add: ObjectKeyFromObject_def kubeconfigSecret_def)
  obtain res w' where run: "CreateOrPatch w ?desired (mutateFn ?desired) = (res, w')"
    by (cases "CreateOrPatch w ?desired (mutateFn ?desired)")
  have "\<And>ok. res = Inr ok \<Longrightarrow>
          (\<exists>s. secrets w' (DefaultManagedNamespace c, name @ ''-kubeconfig'') = Some s
                \<and> ownedFields s = ownedFields ?desired)
          \<and> dom (secrets w') = insert (DefaultManagedNamespace c, name @ ''-kubeconfig'')
                                  (dom (secrets w))"
    using CreateOrPatch_success [of w ?desired _ w'] run by (simp add: key)
  with run CreateOrPatch_twice [of w ?desired] show ?thesis by auto
qed

theorem upsert_idempotent_witness:
  "fst (CreateOrPatch (exampleWorld None) (kubeconfigSecret exampleConstants ''test'' ''token: test'')
          (mutateFn (kubeconfigSecret exampleConstants ''test'' ''token: test'')))
     = Inr OperationResultCreated
   \<and> secrets (snd (CreateOrPatch (exampleWorld None)
                     (kubeconfigSecret exampleConstants ''test'' ''token: test'')
                     (mutateFn (kubeconfigSecret exampleConstants ''test'' ''token: test''))))
       (''openshift-cluster-api'', ''test-kubeconfig'') = Some exampleKubeconfigSecret
   \<and> dom (secrets (snd (CreateOrPatch (exampleWorld None)
                     (kubeconfigSecret exampleConstants ''test'' ''token: test'')
                     (mutateFn (kubeconfigSecret exampleConstants ''test'' ''token: test'')))))
     = {(''openshift-cluster-api'', ''cluster-capi-operator-token-x2x''),
        (''openshift-cluster-api'', ''test-kubeconfig'')}
   \<and> snd (CreateOrPatch
          (snd (CreateOrPatch (exampleWorld None)
                  (kubeconfigSecret exampleConstants ''test'' ''token: test'')
                  (mutateFn (kubeconfigSecret exampleConstants ''test'' ''token: test''))))
          (kubeconfigSecret exampleConstants ''test'' ''token: test'')
          (mutateFn (kubeconfigSecret exampleConstants ''test'' ''token: test'')))
     = snd (CreateOrPatch (exampleWorld None)
              (kubeconfigSecret exampleConstants ''test'' ''token: test'')
              (mutateFn (kubeconfigSecret exampleConstants ''test'' ''token: test'')))
   \<and> contents (snd (CreateOrPatch (settledWorld True)
                      (kubeconfigSecret exampleConstants ''test'' ''token: test'')
                      (mutateFn (kubeconfigSecret exampleConstants ''test'' ''token: test''))))
     = contents (settledWorld True)
   \<and> revision (snd (CreateOrPatch (settledWorld True)
                      (kubeconfigSecret exampleConstants ''test'' ''token: test'')
                      (mutateFn (kubeconfigSecret exampleConstants ''test'' ''token: test''))))
     = 4
   \<and> revision (settledWorld True) = 3"
proof -
  let ?desired = "kubeconfigSecret exampleConstants ''test'' ''token: test''"
  have first: "CreateOrPatch (exampleWorld None) ?desired (mutateFn ?desired)
     = (Inr OperationResultCreated,
        (exampleWorld None)
          \<lparr> secrets := (secrets (exampleWorld None))
               ((''openshift-cluster-api'', ''test-kubeconfig'') \<mapsto> exampleKubeconfigSecret),
             revision := 3 \<rparr>)"
    by (simp add: CreateOrPatch_mutateFn getSecret_def createSecret_def store_def
          ObjectKeyFromObject_def kubeconfigSecret_def exampleConstants_def exampleWorld_def
          exampleKubeconfigSecret_def ClusterLabelName_def ClusterSecretType_def)
  have keys: "dom (secrets (exampleWorld None))
                = {(''openshift-cluster-api'', ''cluster-capi-operator-token-x2x'')}"
    by (simp add: exampleWorld_def)
  have plain: "\<not> stampsVacuousWrites (exampleWorld None)"
    by (simp add: exampleWorld_def)
  have stamping: "stampsVacuousWrites ((exampleWorld None)\<lparr> stampsVacuousWrites := True \<rparr>)"
    by simp
  have revisions: "revision (snd (CreateOrPatch (settledWorld True) ?desired (mutateFn ?desired))) = 4
                   \<and> revision (settledWorld True) = 3"
    by (simp add: CreateOrPatch_settled) (simp add: settledWorld_def)
  from upsert_idempotent [of "exampleWorld None" exampleConstants "''test''" "''token: test''"]
    upsert_idempotent [of "(exampleWorld None)\<lparr> stampsVacuousWrites := True \<rparr>"
      exampleConstants "''test''" "''token: test''"]
  show ?thesis
    by (simp add: first keys insert_commute plain CreateOrPatch_fresh revisions)
qed

section \<open>The applicability gate and letter case\<close>

text \<open>
  \<open>strings.ToLower\<close> on the example table, the results read as byte values: a capital
  letter with a grave accent, the Kelvin sign, which becomes the ASCII letter \<open>k\<close>, and a
  byte that is not UTF-8, which becomes the replacement rune.
\<close>

lemma ToLower_examples:
  "(map of_char (ToLower exampleLowerCase graveAWS) :: nat list) = [0xC3, 0xA0, 0x77, 0x73]"
  "(map of_char (ToLower exampleLowerCase
       [CHR 0xE2, CHR 0x84, CHR 0xAA, CHR ''u'', CHR ''b'', CHR ''e'',
        CHR ''V'', CHR ''i'', CHR ''r'', CHR ''t'']) :: nat list)
     = map of_char ''kubevirt''"
  "(map of_char (ToLower exampleLowerCase [CHR 0xFF, CHR ''A'']) :: nat list)
     = [0xEF, 0xBF, 0xBD, 0x61]"
  by (simp_all add: graveAWS_def ToLower_def Map_string_def DecodeRuneInString_def
        acceptRange_def EncodeRune_def encode3_def RuneError_def unicodeToLower_def
        exampleLowerCase_def)




text \<open>
  A letter and its lower-case form are the same letter up to case, provided the
  lower-case form is its own lower-case form; upper and lower case of an ASCII letter are.
\<close>

lemma sameLetter_lower:
  assumes "unicodeToLower lowerCase a = b" and "unicodeToLower lowerCase b = b"
  shows "sameLetter lowerCase a b" and "sameLetter lowerCase b a"
  using assms by (simp_all add: sameLetter_def)

lemma sameLetter_ascii:
  assumes "65 \<le> a" and "a \<le> 90"
  shows "sameLetter lowerCase a (a + 32)"
  using assms by (simp add: sameLetter_def unicodeToLower_def)
















end
